theory Spec2Isabelle
  imports Complex_Main
begin

section \<open>Vectors and quaternions\<close>

text \<open>
  The dice components compute with the Vector3 and Quaternion classes of the three.js
  library. The operations the components call are written out here over the real
  numbers (JavaScript computes them in double precision); every method that mutates
  its receiver returns the new value instead.
\<close>

datatype Vector3 = Vector3 (vx: real) (vy: real) (vz: real)

datatype Quaternion = Quaternion (qx: real) (qy: real) (qz: real) (qw: real)

definition addVectors :: "Vector3 \<Rightarrow> Vector3 \<Rightarrow> Vector3" where
  "addVectors a b = Vector3 (vx a + vx b) (vy a + vy b) (vz a + vz b)"

definition subVectors :: "Vector3 \<Rightarrow> Vector3 \<Rightarrow> Vector3" where
  "subVectors a b = Vector3 (vx a - vx b) (vy a - vy b) (vz a - vz b)"

definition multiplyScalar :: "Vector3 \<Rightarrow> real \<Rightarrow> Vector3" where
  "multiplyScalar a s = Vector3 (vx a * s) (vy a * s) (vz a * s)"

definition divideScalar :: "Vector3 \<Rightarrow> real \<Rightarrow> Vector3" where
  "divideScalar a s = multiplyScalar a (1 / s)"

definition addScaledVector :: "Vector3 \<Rightarrow> Vector3 \<Rightarrow> real \<Rightarrow> Vector3" where
  "addScaledVector a v s = Vector3 (vx a + vx v * s) (vy a + vy v * s) (vz a + vz v * s)"

definition dot :: "Vector3 \<Rightarrow> Vector3 \<Rightarrow> real" where
  "dot a b = vx a * vx b + vy a * vy b + vz a * vz b"

definition crossVectors :: "Vector3 \<Rightarrow> Vector3 \<Rightarrow> Vector3" where
  "crossVectors a b =
     Vector3 (vy a * vz b - vz a * vy b) (vz a * vx b - vx a * vz b) (vx a * vy b - vy a * vx b)"

definition lengthSq :: "Vector3 \<Rightarrow> real" where
  "lengthSq a = vx a * vx a + vy a * vy a + vz a * vz a"

definition lengthV :: "Vector3 \<Rightarrow> real" where
  "lengthV a = sqrt (lengthSq a)"

text \<open>\<^verbatim>\<open>normalize()\<close> divides by \<^verbatim>\<open>this.length() || 1\<close>: the zero vector stays zero.\<close>

definition normalizeV :: "Vector3 \<Rightarrow> Vector3" where
  "normalizeV a = divideScalar a (if lengthV a = 0 then 1 else lengthV a)"

definition distanceTo :: "Vector3 \<Rightarrow> Vector3 \<Rightarrow> real" where
  "distanceTo a b = lengthV (subVectors a b)"

definition lerp :: "Vector3 \<Rightarrow> Vector3 \<Rightarrow> real \<Rightarrow> Vector3" where
  "lerp a v alpha =
     Vector3 (vx a + (vx v - vx a) * alpha) (vy a + (vy v - vy a) * alpha)
       (vz a + (vz v - vz a) * alpha)"

definition origin :: Vector3 where
  "origin = Vector3 0 0 0"

definition forward :: Vector3 where
  "forward = Vector3 0 0 1"

definition EPSILON :: real where
  "EPSILON = 1 / 2 ^ 52"

definition qlength :: "Quaternion \<Rightarrow> real" where
  "qlength q = sqrt (qx q * qx q + qy q * qy q + qz q * qz q + qw q * qw q)"

text \<open>\<^verbatim>\<open>Quaternion.normalize()\<close>: a zero quaternion becomes the identity.\<close>

definition normalizeQ :: "Quaternion \<Rightarrow> Quaternion" where
  "normalizeQ q =
     (if qlength q = 0 then Quaternion 0 0 0 1
      else Quaternion (qx q * (1 / qlength q)) (qy q * (1 / qlength q))
             (qz q * (1 / qlength q)) (qw q * (1 / qlength q)))"

text \<open>\<^verbatim>\<open>Quaternion.setFromEuler\<close> for the default rotation order XYZ.\<close>

definition setFromEuler :: "Vector3 \<Rightarrow> Quaternion" where
  "setFromEuler e =
     (let c1 = cos (vx e / 2); c2 = cos (vy e / 2); c3 = cos (vz e / 2);
          s1 = sin (vx e / 2); s2 = sin (vy e / 2); s3 = sin (vz e / 2)
      in Quaternion (s1 * c2 * c3 + c1 * s2 * s3) (c1 * s2 * c3 - s1 * c2 * s3)
           (c1 * c2 * s3 + s1 * s2 * c3) (c1 * c2 * c3 - s1 * s2 * s3))"

text \<open>
  \<^verbatim>\<open>Quaternion.setFromUnitVectors(vFrom, vTo)\<close>: the rotation that turns the unit
  vector \<open>vFrom\<close> into the unit vector \<open>vTo\<close>, with the library's own choice of axis
  when the two point in opposite directions, which it takes them to do when their dot
  product is within \<^verbatim>\<open>Number.EPSILON\<close> of -1.
\<close>

definition setFromUnitVectors :: "Vector3 \<Rightarrow> Vector3 \<Rightarrow> Quaternion" where
  "setFromUnitVectors vFrom vTo =
     (let r = dot vFrom vTo + 1 in
      if r < EPSILON then
        (if \<bar>vx vFrom\<bar> > \<bar>vz vFrom\<bar>
         then normalizeQ (Quaternion (- vy vFrom) (vx vFrom) 0 0)
         else normalizeQ (Quaternion 0 (- vz vFrom) (vy vFrom) 0))
      else normalizeQ (Quaternion (vy vFrom * vz vTo - vz vFrom * vy vTo)
             (vz vFrom * vx vTo - vx vFrom * vz vTo)
             (vx vFrom * vy vTo - vy vFrom * vx vTo) r))"

text \<open>\<^verbatim>\<open>Vector3.applyQuaternion(q)\<close>: the vector turned by the unit quaternion \<open>q\<close>.\<close>

definition applyQuaternion :: "Vector3 \<Rightarrow> Quaternion \<Rightarrow> Vector3" where
  "applyQuaternion v q =
     (let tx = 2 * (qy q * vz v - qz q * vy v);
          ty = 2 * (qz q * vx v - qx q * vz v);
          tz = 2 * (qx q * vy v - qy q * vx v)
      in Vector3 (vx v + qw q * tx + qy q * tz - qz q * ty)
           (vy v + qw q * ty + qz q * tx - qx q * tz)
           (vz v + qw q * tz + qx q * ty - qy q * tx))"

section \<open>The six dice\<close>

datatype die = D4 | D6 | D8 | D10 | D12 | D20

definition sides :: "die \<Rightarrow> int" where
  "sides d = (case d of D4 \<Rightarrow> 4 | D6 \<Rightarrow> 6 | D8 \<Rightarrow> 8 | D10 \<Rightarrow> 10 | D12 \<Rightarrow> 12 | D20 \<Rightarrow> 20)"

definition ROLL_DURATION_MS :: "die \<Rightarrow> real" where
  "ROLL_DURATION_MS d = (if d = D6 then 1000 else 1800)"

definition GRAVITY :: real where
  "GRAVITY = - 9.8"

definition BOUNCE_DAMPING :: "die \<Rightarrow> real" where
  "BOUNCE_DAMPING d = (if d = D6 then 0.05 else 0.5)"

text \<open>
  What the components take from the library without computing it themselves: the
  normal attribute of the non-indexed tetrahedron, octahedron and icosahedron after
  \<^verbatim>\<open>computeVertexNormals()\<close>, the position attribute of the non-indexed dodecahedron
  (each read by vertex number, as \<^verbatim>\<open>fromBufferAttribute\<close> and \<^verbatim>\<open>getX/getY/getZ\<close> do),
  the spherical interpolation of quaternions, and the Euler angles that the library
  keeps in step with an object's quaternion.
\<close>

record three =
  TetrahedronGeometry_normal :: "nat \<Rightarrow> Vector3"
  OctahedronGeometry_normal :: "nat \<Rightarrow> Vector3"
  IcosahedronGeometry_normal :: "nat \<Rightarrow> Vector3"
  DodecahedronGeometry_position :: "nat \<Rightarrow> Vector3"
  slerp :: "Quaternion \<Rightarrow> Quaternion \<Rightarrow> real \<Rightarrow> Quaternion"
  setFromQuaternion :: "Quaternion \<Rightarrow> Vector3"

section \<open>Geometry of the ten-sided die\<close>

text \<open>
  \<^verbatim>\<open>PolyhedronGeometry(vertices, indices, radius, 0)\<close> of the library, at detail 0:
  the vertex \<open>i\<close> of the flat array is the triple at \<open>3 * i\<close>; every index triple
  \<open>(a, b, c)\<close> contributes one triangle, stored as the vertices \<open>b\<close>, \<open>c\<close>, \<open>a\<close>, and
  every stored vertex is moved onto the sphere of the given radius. The result is
  already non-indexed, so \<^verbatim>\<open>toNonIndexed()\<close> leaves it as it is.
\<close>

definition getVertexByIndex :: "real list \<Rightarrow> nat \<Rightarrow> Vector3" where
  "getVertexByIndex vs i = Vector3 (vs ! (3 * i)) (vs ! (3 * i + 1)) (vs ! (3 * i + 2))"

definition applyRadius :: "real \<Rightarrow> Vector3 \<Rightarrow> Vector3" where
  "applyRadius radius v = multiplyScalar (normalizeV v) radius"

fun subdivide :: "real list \<Rightarrow> nat list \<Rightarrow> Vector3 list" where
  "subdivide vs (a # b # c # rest) =
     getVertexByIndex vs b # getVertexByIndex vs c # getVertexByIndex vs a # subdivide vs rest"
| "subdivide vs _ = []"

definition PolyhedronGeometry :: "real list \<Rightarrow> nat list \<Rightarrow> real \<Rightarrow> Vector3 list" where
  "PolyhedronGeometry vs indices radius = map (applyRadius radius) (subdivide vs indices)"

definition verts :: "real list" where
  "verts = [0, 0, 1, 0, 0, - 1] @
     concat (map (\<lambda>i. let a = (real i * pi * 2) / 10
                       in [- cos a, - sin a, 0.105 * (if i mod 2 \<noteq> 0 then 1 else - 1)])
               [0 ..< 10])"

definition faces :: "nat list" where
  "faces = concat
     [[0, 2, 3], [0, 3, 4], [0, 4, 5], [0, 5, 6], [0, 6, 7],
      [0, 7, 8], [0, 8, 9], [0, 9, 10], [0, 10, 11], [0, 11, 2],
      [1, 3, 2], [1, 4, 3], [1, 5, 4], [1, 6, 5], [1, 7, 6],
      [1, 8, 7], [1, 9, 8], [1, 10, 9], [1, 11, 10], [1, 2, 11]]"

definition createD10Geometry :: "Vector3 list" where
  "createD10Geometry = PolyhedronGeometry verts faces 1"

section \<open>Face tables\<close>

record face =
  center :: Vector3
  normal :: Vector3

record face10 = face +
  topDir :: Vector3

definition topApex :: Vector3 where
  "topApex = Vector3 0 0 1"

definition bottomApex :: Vector3 where
  "bottomApex = Vector3 0 0 (- 1)"

text \<open>The loop \<^verbatim>\<open>for (let c of candidates)\<close> over the running pair \<^verbatim>\<open>(best, bestDist)\<close>.\<close>

fun nearest :: "Vector3 \<Rightarrow> Vector3 list \<Rightarrow> Vector3 \<times> real \<Rightarrow> Vector3 \<times> real" where
  "nearest apexTarget [] bb = bb"
| "nearest apexTarget (c # cs) (best, bestDist) =
     (let d = distanceTo apexTarget c
      in if d < bestDist then nearest apexTarget cs (c, d)
         else nearest apexTarget cs (best, bestDist))"

text \<open>
  One round of the loop of \<^verbatim>\<open>faceData\<close> in D10.js; \<open>attr\<close> reads the position
  attribute by vertex number.
\<close>

definition faceEntry_D10 :: "(nat \<Rightarrow> Vector3) \<Rightarrow> nat \<Rightarrow> face10" where
  "faceEntry_D10 attr f =
     (let tri = f * 2;
          i0 = tri * 3;
          v0 = attr i0;
          v1 = attr (i0 + 1);
          v2 = attr (i0 + 2);
          c = divideScalar (addVectors (addVectors (addVectors origin v0) v1) v2) 3;
          n = normalizeV (crossVectors (subVectors v1 v0) (subVectors v2 v0));
          apexTarget = (if vz c \<ge> 0 then topApex else bottomApex);
          candidates = [v0, v1, v2];
          best = fst (nearest apexTarget candidates
                        (candidates ! 0, distanceTo apexTarget (candidates ! 0)))
      in \<lparr> center = c, normal = n, topDir = subVectors best c \<rparr>)"

definition faceData_D10 :: "(nat \<Rightarrow> Vector3) \<Rightarrow> face10 list" where
  "faceData_D10 attr = map (faceEntry_D10 attr) [0 ..< 10]"

text \<open>One round of the loop of \<^verbatim>\<open>faceData\<close> in D12.js.\<close>

definition faceEntry_D12 :: "(nat \<Rightarrow> Vector3) \<Rightarrow> nat \<Rightarrow> face" where
  "faceEntry_D12 attr f =
     (let tri0 = f * 3 * 3;
          v0 = attr tri0;
          v1 = attr (tri0 + 1);
          v2 = attr (tri0 + 2)
      in \<lparr> center = divideScalar (addVectors (addVectors (addVectors origin v0) v1) v2) 3,
           normal = normalizeV (crossVectors (subVectors v1 v0) (subVectors v2 v0)) \<rparr>)"

definition faceData_D12 :: "(nat \<Rightarrow> Vector3) \<Rightarrow> face list" where
  "faceData_D12 attr = map (faceEntry_D12 attr) [0 ..< 12]"

text \<open>The position attribute of the ten-sided die, read by vertex number.\<close>

definition position_D10 :: "nat \<Rightarrow> Vector3" where
  "position_D10 i = createD10Geometry ! i"

text \<open>
  D4, D8, D20 (and D12 inside its roll handler) take a face's normal as the normalised
  mean of the three vertex normals of triangle \<open>faceIndex\<close>.
\<close>

definition faceNormal :: "(nat \<Rightarrow> Vector3) \<Rightarrow> nat \<Rightarrow> Vector3" where
  "faceNormal normals faceIndex =
     (let i0 = faceIndex * 3;
          n0 = normals i0;
          n1 = normals (i0 + 1);
          n2 = normals (i0 + 2)
      in normalizeV (divideScalar (addVectors (addVectors (addVectors origin n0) n1) n2) 3))"

text \<open>
  \<^verbatim>\<open>getFaceQuaternion\<close> of D6.js: a table of Euler angles by face number, face 1's
  entry for any other number.
\<close>

definition orientations :: "int \<Rightarrow> Vector3 option" where
  "orientations faceNumber =
     (if faceNumber = 1 then Some (Vector3 0 (- pi / 2) 0)
      else if faceNumber = 2 then Some (Vector3 0 (pi / 2) 0)
      else if faceNumber = 3 then Some (Vector3 (pi / 2) 0 0)
      else if faceNumber = 4 then Some (Vector3 (- pi / 2) 0 0)
      else if faceNumber = 5 then Some (Vector3 0 0 0)
      else if faceNumber = 6 then Some (Vector3 pi 0 0)
      else None)"

definition getFaceQuaternion :: "int \<Rightarrow> Quaternion" where
  "getFaceQuaternion faceNumber =
     (let e = (case orientations faceNumber of
                 Some a \<Rightarrow> a
               | None \<Rightarrow> Vector3 0 (- pi / 2) 0)
      in setFromEuler e)"

text \<open>
  The cube is a \<^verbatim>\<open>BoxGeometry\<close> with one material per side; the library orders the
  sides +X, -X, +Y, -Y, +Z, -Z, so the material numbered \<open>n\<close> lies on the side with
  this outward normal.
\<close>

definition BoxGeometry_normal :: "int \<Rightarrow> Vector3" where
  "BoxGeometry_normal faceNumber =
     (if faceNumber = 1 then Vector3 1 0 0
      else if faceNumber = 2 then Vector3 (- 1) 0 0
      else if faceNumber = 3 then Vector3 0 1 0
      else if faceNumber = 4 then Vector3 0 (- 1) 0
      else if faceNumber = 5 then Vector3 0 0 1
      else Vector3 0 0 (- 1))"

section \<open>Component state\<close>

text \<open>
  The \<^verbatim>\<open>useState\<close> values of a die component. D10 keeps no \<^verbatim>\<open>rollStartTime\<close> and D12
  computes its initial quaternion with \<^verbatim>\<open>useMemo\<close>; the fields are there for all six.
\<close>

record component =
  rolling :: bool
  result :: int
  targetQuat :: "Quaternion option"
  rollDirection :: Vector3
  rollStartTime :: real
  resetSignal :: nat
  initialQuat :: Quaternion

text \<open>The \<^verbatim>\<open>useRef\<close> values of the mesh component.\<close>

record body =
  pos :: Vector3
  velocity :: Vector3
  hasBounced :: bool

text \<open>
  The mesh object behind \<^verbatim>\<open>meshRef\<close>. Its Euler angles \<^verbatim>\<open>mesh.rotation\<close> are not
  stored: the library recomputes them from the quaternion whenever the quaternion is
  set, so they are read through \<open>setFromQuaternion\<close>.
\<close>

record object3d =
  position :: Vector3
  quaternion :: Quaternion

text \<open>
  A pending \<^verbatim>\<open>setTimeout\<close> callback: when it is due, and the two values its closure
  holds.
\<close>

record timeout =
  due :: real
  faceNumber :: int
  target :: Quaternion

text \<open>
  A mounted die: the component, the mesh, the clock in milliseconds, the pending
  timeouts in the order they were set, whether the parent passed \<^verbatim>\<open>onRollComplete\<close>,
  and the arguments \<^verbatim>\<open>onRollComplete\<close> has been called with so far.
\<close>

record page =
  ui :: component
  refs :: body
  mesh :: object3d
  clock :: real
  timeouts :: "timeout list"
  onRollComplete :: bool
  completed :: "int list"

text \<open>The four \<^verbatim>\<open>Math.random()\<close> values drawn by one \<^verbatim>\<open>rollDice\<close>, in the order drawn.\<close>

record draws =
  faceDraw :: real
  dirX :: real
  dirY :: real
  dirZ :: real

text \<open>The three \<^verbatim>\<open>Math.random()\<close> values drawn by one tumbling frame.\<close>

record spin =
  spinX :: real
  spinY :: real
  spinZ :: real

text \<open>\<^verbatim>\<open>Math.random()\<close> returns a number in \<open>[0, 1)\<close>.\<close>

definition random :: "real \<Rightarrow> bool" where
  "random u = (0 \<le> u \<and> u < 1)"

section \<open>Initial orientation\<close>

definition initialQuaternion :: "three \<Rightarrow> die \<Rightarrow> Quaternion" where
  "initialQuaternion lib d =
     (case d of
        D4 \<Rightarrow> setFromUnitVectors (faceNormal (TetrahedronGeometry_normal lib) 3) forward
      | D6 \<Rightarrow> getFaceQuaternion 6
      | D8 \<Rightarrow> setFromUnitVectors (faceNormal (OctahedronGeometry_normal lib) 7) forward
      | D10 \<Rightarrow> setFromUnitVectors (normal (faceData_D10 position_D10 ! 9)) forward
      | D12 \<Rightarrow>
          setFromUnitVectors
            (normal (faceData_D12 (DodecahedronGeometry_position lib) ! 11)) forward
      | D20 \<Rightarrow> setFromUnitVectors (faceNormal (IcosahedronGeometry_normal lib) 19) forward)"

text \<open>
  The mesh's \<^verbatim>\<open>useEffect\<close> on \<^verbatim>\<open>[resetSignal, rollDirection, initialQuaternion]\<close>.
\<close>

definition resetBody :: "Vector3 \<Rightarrow> body" where
  "resetBody dir =
     \<lparr> pos = Vector3 0 0 0,
       velocity = Vector3 (vx dir * 3) (vy dir * 4) (vz dir * 3),
       hasBounced = False \<rparr>"

definition resetEffect :: "page \<Rightarrow> page" where
  "resetEffect s =
     s \<lparr> refs := resetBody (rollDirection (ui s)),
         mesh := \<lparr> position = Vector3 0 0 0, quaternion = initialQuat (ui s) \<rparr> \<rparr>"

text \<open>
  The die after mounting, once the effects of the first render have run: nothing
  rolled yet, the result shown is the highest face, the mesh at the initial quaternion.
\<close>

definition mount :: "three \<Rightarrow> die \<Rightarrow> bool \<Rightarrow> page" where
  "mount lib d cb =
     resetEffect
       \<lparr> ui = \<lparr> rolling = False, result = sides d, targetQuat = None,
                rollDirection = Vector3 0 0 0, rollStartTime = 0, resetSignal = 0,
                initialQuat = initialQuaternion lib d \<rparr>,
         refs = resetBody (Vector3 0 0 0),
         mesh = \<lparr> position = Vector3 0 0 0, quaternion = Quaternion 0 0 0 1 \<rparr>,
         clock = 0, timeouts = [], onRollComplete = cb, completed = [] \<rparr>"

section \<open>Rolling\<close>

text \<open>
  The quaternion \<^verbatim>\<open>rollDice\<close> computes for the face it has drawn. D4, D8 and D20 read
  the normals of their own solid, D6 its table, D10 its face table; D12 builds an
  \<^verbatim>\<open>IcosahedronGeometry\<close> here and reads that.
\<close>

definition rolledQuaternion :: "three \<Rightarrow> die \<Rightarrow> int \<Rightarrow> Quaternion" where
  "rolledQuaternion lib d faceIndex =
     (case d of
        D4 \<Rightarrow>
          setFromUnitVectors (faceNormal (TetrahedronGeometry_normal lib) (nat faceIndex)) forward
      | D6 \<Rightarrow> getFaceQuaternion (faceIndex + 1)
      | D8 \<Rightarrow>
          setFromUnitVectors (faceNormal (OctahedronGeometry_normal lib) (nat faceIndex)) forward
      | D10 \<Rightarrow> setFromUnitVectors (normal (faceData_D10 position_D10 ! nat faceIndex)) forward
      | D12 \<Rightarrow>
          setFromUnitVectors (faceNormal (IcosahedronGeometry_normal lib) (nat faceIndex)) forward
      | D20 \<Rightarrow>
          setFromUnitVectors (faceNormal (IcosahedronGeometry_normal lib) (nat faceIndex)) forward)"

text \<open>
  \<^verbatim>\<open>rollDice\<close>, followed by the mesh's reset effect that the new \<^verbatim>\<open>resetSignal\<close> sets
  off. The face index is \<^verbatim>\<open>Math.floor(Math.random() * N)\<close>.
\<close>

definition rollDice :: "three \<Rightarrow> die \<Rightarrow> draws \<Rightarrow> page \<Rightarrow> page" where
  "rollDice lib d r s =
     (if rolling (ui s) then s
      else
        let faceIndex = \<lfloor>faceDraw r * real_of_int (sides d)\<rfloor>;
            number = faceIndex + 1;
            dir = normalizeV (Vector3 ((dirX r - 0.5) * 2) (dirY r * 1.5 + 1.2)
                                ((dirZ r - 0.5) * 2));
            tq = rolledQuaternion lib d faceIndex
        in resetEffect
             (s \<lparr> ui := (ui s)
                     \<lparr> rolling := True,
                       rollStartTime := (if d = D10 then rollStartTime (ui s) else clock s / 1000),
                       result := number,
                       rollDirection := dir,
                       resetSignal := resetSignal (ui s) + 1 \<rparr>,
                   timeouts := timeouts s @
                     [\<lparr> due = clock s + ROLL_DURATION_MS d, faceNumber = number, target = tq \<rparr>] \<rparr>))"

text \<open>
  The callback given to \<^verbatim>\<open>setTimeout\<close>. D10's callback sets the target and ends the
  roll; the other five also call \<^verbatim>\<open>onRollComplete\<close> when the parent passed one.
\<close>

definition fire :: "die \<Rightarrow> timeout \<Rightarrow> page \<Rightarrow> page" where
  "fire d t s =
     s \<lparr> ui := (ui s) \<lparr> rolling := False, targetQuat := Some (target t) \<rparr>,
         completed := (if d \<noteq> D10 \<and> onRollComplete s then completed s @ [faceNumber t]
                       else completed s) \<rparr>"

fun fireAll :: "die \<Rightarrow> timeout list \<Rightarrow> page \<Rightarrow> page" where
  "fireAll d [] s = s"
| "fireAll d (t # ts) s = fireAll d ts (fire d t s)"

text \<open>Time passes: every timeout that has come due runs, in the order it was set.\<close>

definition advance :: "die \<Rightarrow> real \<Rightarrow> page \<Rightarrow> page" where
  "advance d dt s =
     (let t1 = clock s + dt
      in fireAll d (filter (\<lambda>t. due t \<le> t1) (timeouts s))
           (s \<lparr> clock := t1, timeouts := filter (\<lambda>t. \<not> due t \<le> t1) (timeouts s) \<rparr>))"

section \<open>Frames\<close>

text \<open>The rates of the random spin, per axis: base and spread.\<close>

definition spinRates :: "die \<Rightarrow> (real \<times> real) \<times> (real \<times> real) \<times> (real \<times> real)" where
  "spinRates d =
     (case d of
        D10 \<Rightarrow> ((7, 3), (8, 3), (6, 2))
      | D12 \<Rightarrow> ((7, 3), (9, 3), (6, 2))
      | _ \<Rightarrow> ((8, 3), (10, 3), (7, 2)))"

text \<open>The vertical velocity and the position of a tumbling frame before the floor test.\<close>

definition fallen :: "real \<Rightarrow> body \<Rightarrow> body" where
  "fallen delta b =
     (let v = Vector3 (vx (velocity b)) (vy (velocity b) + GRAVITY * delta * 0.6)
                (vz (velocity b))
      in b \<lparr> velocity := v, pos := addScaledVector (pos b) v delta \<rparr>)"

text \<open>The floor test \<^verbatim>\<open>pos.current.y < -1.4 && !hasBounced.current\<close>.\<close>

definition floorContact :: "real \<Rightarrow> body \<Rightarrow> bool" where
  "floorContact delta b = (vy (pos (fallen delta b)) < - 1.4 \<and> \<not> hasBounced b)"

definition tumbleBody :: "die \<Rightarrow> real \<Rightarrow> body \<Rightarrow> body" where
  "tumbleBody d delta b =
     (let b1 = fallen delta b
      in if floorContact delta b
         then \<lparr> pos = Vector3 (vx (pos b1)) (- 1.4) (vz (pos b1)),
                velocity = Vector3 (vx (velocity b1)) (vy (velocity b1) * - BOUNCE_DAMPING d)
                             (vz (velocity b1)),
                hasBounced = True \<rparr>
         else b1)"

definition tumbleMesh :: "three \<Rightarrow> die \<Rightarrow> real \<Rightarrow> spin \<Rightarrow> body \<Rightarrow> object3d \<Rightarrow> object3d" where
  "tumbleMesh lib d delta sp b m =
     (case spinRates d of ((bx, wx), (by, wy), (bz, wz)) \<Rightarrow>
        let e = setFromQuaternion lib (quaternion m);
            e1 = Vector3 (vx e + delta * (bx + spinX sp * wx))
                   (vy e + delta * (by + spinY sp * wy))
                   (vz e + delta * (bz + spinZ sp * wz))
        in \<lparr> position = pos (fallen delta b), quaternion = setFromEuler e1 \<rparr>)"

text \<open>
  The interpolation parameter the settling branch hands to \<^verbatim>\<open>slerp\<close>: D12 passes
  \<^verbatim>\<open>delta * 6\<close>, the other five \<^verbatim>\<open>Math.min(1, delta * 6)\<close>.
\<close>

definition slerpParameter :: "die \<Rightarrow> real \<Rightarrow> real" where
  "slerpParameter d delta = (if d = D12 then delta * 6 else min 1 (delta * 6))"

definition settleMesh :: "three \<Rightarrow> die \<Rightarrow> real \<Rightarrow> Quaternion \<Rightarrow> object3d \<Rightarrow> object3d" where
  "settleMesh lib d delta tq m =
     \<lparr> position = lerp (position m) (Vector3 0 0 0) (delta * 3),
       quaternion = slerp lib (quaternion m) tq (slerpParameter d delta) \<rparr>"

text \<open>
  \<^verbatim>\<open>useFrame\<close>: one rendered frame with the frame time \<open>delta\<close> in seconds. (D10 and
  D12 also copy the mesh's pose to their number labels, which no state here reads.)
\<close>

definition useFrame :: "three \<Rightarrow> die \<Rightarrow> real \<Rightarrow> spin \<Rightarrow> page \<Rightarrow> page" where
  "useFrame lib d delta sp s =
     (if rolling (ui s)
      then s \<lparr> refs := tumbleBody d delta (refs s),
               mesh := tumbleMesh lib d delta sp (refs s) (mesh s) \<rparr>
      else case targetQuat (ui s) of
             Some tq \<Rightarrow> s \<lparr> mesh := settleMesh lib d delta tq (mesh s) \<rparr>
           | None \<Rightarrow> s)"

section \<open>Runs\<close>

datatype event = Roll draws | Frame real spin | Advance real

fun step :: "three \<Rightarrow> die \<Rightarrow> event \<Rightarrow> page \<Rightarrow> page" where
  "step lib d (Roll r) s = rollDice lib d r s"
| "step lib d (Frame delta sp) s = useFrame lib d delta sp s"
| "step lib d (Advance dt) s = advance d dt s"

fun run :: "three \<Rightarrow> die \<Rightarrow> event list \<Rightarrow> page \<Rightarrow> page" where
  "run lib d [] s = s"
| "run lib d (e # es) s = run lib d es (step lib d e s)"


text \<open>The events of a list that are no rolls, and the time its \<open>Advance\<close> events add up to.\<close>

fun isRoll :: "event \<Rightarrow> bool" where
  "isRoll (Roll r) = True"
| "isRoll _ = False"

fun elapsed :: "event list \<Rightarrow> real" where
  "elapsed [] = 0"
| "elapsed (Advance dt # es) = dt + elapsed es"
| "elapsed (e # es) = elapsed es"

fun forwardInTime :: "event list \<Rightarrow> bool" where
  "forwardInTime [] = True"
| "forwardInTime (Advance dt # es) = (0 \<le> dt \<and> forwardInTime es)"
| "forwardInTime (e # es) = forwardInTime es"

text \<open>
  A stand-in for the library, for instantiating theorems at concrete values: solids
  whose faces all have the unit normal \<open>(0, 3/5, 4/5)\<close>, an interpolation that jumps
  to its target.
\<close>

definition stand_in :: three where
  "stand_in =
     \<lparr> TetrahedronGeometry_normal = (\<lambda>i. Vector3 0 (3 / 5) (4 / 5)),
       OctahedronGeometry_normal = (\<lambda>i. Vector3 0 (3 / 5) (4 / 5)),
       IcosahedronGeometry_normal = (\<lambda>i. Vector3 0 (3 / 5) (4 / 5)),
       DodecahedronGeometry_position =
         (\<lambda>i. [Vector3 0 0 0, Vector3 1 0 0, Vector3 0 1 0] ! (i mod 3)),
       slerp = (\<lambda>a b t. b),
       setFromQuaternion = (\<lambda>q. Vector3 0 0 0) \<rparr>"

section \<open>Notions the claims are stated with\<close>

text \<open>The equatorial vertex \<open>k\<close> that \<^verbatim>\<open>createD10Geometry\<close> pushes in round \<open>k\<close> of its loop.\<close>

definition equator :: "nat \<Rightarrow> Vector3" where
  "equator k = Vector3 (- cos ((real k * pi * 2) / 10)) (- sin ((real k * pi * 2) / 10))
                 (0.105 * (if k mod 2 \<noteq> 0 then 1 else - 1))"

text \<open>The vertex \<open>i\<close> of \<open>verts\<close> as the geometry stores it, on the unit sphere.\<close>

definition stored :: "nat \<Rightarrow> Vector3" where
  "stored i = applyRadius 1 (getVertexByIndex verts i)"

text \<open>The apex of face \<open>f\<close> of the ten-sided die: the top one for the first five faces.\<close>

definition pole :: "nat \<Rightarrow> Vector3" where
  "pole f = (if f < 5 then topApex else bottomApex)"

text \<open>The three stored vertices of triangle \<open>t\<close> of a position attribute.\<close>

definition triangle :: "(nat \<Rightarrow> Vector3) \<Rightarrow> nat \<Rightarrow> Vector3 list" where
  "triangle attr t = [attr (3 * t), attr (3 * t + 1), attr (3 * t + 2)]"

definition meanOfVertices :: "Vector3 list \<Rightarrow> Vector3" where
  "meanOfVertices vs = divideScalar (foldl addVectors origin vs) (real (length vs))"

text \<open>The normalised cross product of the two edges that leave a triangle's first vertex.\<close>

definition edgeNormal :: "Vector3 list \<Rightarrow> Vector3" where
  "edgeNormal vs =
     normalizeV (crossVectors (subVectors (vs ! 1) (vs ! 0)) (subVectors (vs ! 2) (vs ! 0)))"




text \<open>
  The outward normal of face \<open>i\<close> (counted from 0) as the die's own geometry has it: for
  D4, D8 and D20 the normal of triangle \<open>i\<close> of the solid, for D6 the side that carries
  material \<open>i + 1\<close>, for D10 and D12 the normal in the face table.
\<close>

definition ownNormal :: "three \<Rightarrow> die \<Rightarrow> nat \<Rightarrow> Vector3" where
  "ownNormal lib d i =
     (case d of
        D4 \<Rightarrow> faceNormal (TetrahedronGeometry_normal lib) i
      | D6 \<Rightarrow> BoxGeometry_normal (int i + 1)
      | D8 \<Rightarrow> faceNormal (OctahedronGeometry_normal lib) i
      | D10 \<Rightarrow> normal (faceData_D10 position_D10 ! i)
      | D12 \<Rightarrow> normal (faceData_D12 (DodecahedronGeometry_position lib) ! i)
      | D20 \<Rightarrow> faceNormal (IcosahedronGeometry_normal lib) i)"

text \<open>The face each die shows before the first roll, counted from 0.\<close>

definition referenceFace :: "die \<Rightarrow> nat" where
  "referenceFace d = (case d of D4 \<Rightarrow> 3 | D6 \<Rightarrow> 5 | D8 \<Rightarrow> 7 | D10 \<Rightarrow> 9 | D12 \<Rightarrow> 11 | D20 \<Rightarrow> 19)"

text \<open>
  The outward normal of face \<open>i\<close> read off the geometry itself, without the components'
  own computation: for D4, D8 and D20 the normal the solid stores at the first vertex of
  triangle \<open>i\<close>, for D6 the side that carries material \<open>i + 1\<close>, for D10 and D12 the
  normalised cross product of two edges of the face's first triangle.
\<close>

definition geometryNormal :: "three \<Rightarrow> die \<Rightarrow> nat \<Rightarrow> Vector3" where
  "geometryNormal lib d i =
     (case d of
        D4 \<Rightarrow> TetrahedronGeometry_normal lib (3 * i)
      | D6 \<Rightarrow> BoxGeometry_normal (int i + 1)
      | D8 \<Rightarrow> OctahedronGeometry_normal lib (3 * i)
      | D10 \<Rightarrow> edgeNormal (triangle position_D10 (2 * i))
      | D12 \<Rightarrow> edgeNormal (triangle (DodecahedronGeometry_position lib) (3 * i))
      | D20 \<Rightarrow> IcosahedronGeometry_normal lib (3 * i))"

text \<open>
  After \<^verbatim>\<open>computeVertexNormals()\<close> on a non-indexed solid the three vertices of a triangle
  carry one and the same normal.
\<close>

definition flatAt :: "(nat \<Rightarrow> Vector3) \<Rightarrow> nat \<Rightarrow> bool" where
  "flatAt normals i = (normals (3 * i + 1) = normals (3 * i) \<and> normals (3 * i + 2) = normals (3 * i))"

definition flatNormals :: "three \<Rightarrow> die \<Rightarrow> nat \<Rightarrow> bool" where
  "flatNormals lib d i =
     (case d of
        D4 \<Rightarrow> flatAt (TetrahedronGeometry_normal lib) i
      | D8 \<Rightarrow> flatAt (OctahedronGeometry_normal lib) i
      | D20 \<Rightarrow> flatAt (IcosahedronGeometry_normal lib) i
      | _ \<Rightarrow> True)"

section \<open>Frames leave the component alone\<close>

lemma useFrame_keeps:
  "ui (useFrame lib d delta sp s) = ui s"
  "timeouts (useFrame lib d delta sp s) = timeouts s"
  "completed (useFrame lib d delta sp s) = completed s"
  "clock (useFrame lib d delta sp s) = clock s"
  "onRollComplete (useFrame lib d delta sp s) = onRollComplete s"
  by (simp_all add: useFrame_def split: option.splits)


lemma rolling_rollDice: "rolling (ui (rollDice lib d r s))"
  by (simp add: rollDice_def resetEffect_def Let_def)

text \<open>The face number drawn lies between 1 and the number of sides.\<close>

lemma face_number_in_range:
  assumes "random u"
  shows "1 \<le> \<lfloor>u * real_of_int (sides d)\<rfloor> + 1 \<and> \<lfloor>u * real_of_int (sides d)\<rfloor> + 1 \<le> sides d"
proof -
  have n: "0 < sides d" by (cases d) (simp_all add: sides_def)
  from assms have u: "0 \<le> u" "u < 1" by (simp_all add: random_def)
  from u(1) n have "0 \<le> u * real_of_int (sides d)" by simp
  then have lo: "0 \<le> \<lfloor>u * real_of_int (sides d)\<rfloor>" by simp
  from u(2) n have "u * real_of_int (sides d) < real_of_int (sides d)" by simp
  then have "\<lfloor>u * real_of_int (sides d)\<rfloor> < sides d" by (simp add: floor_less_iff)
  with lo show ?thesis by simp
qed

section \<open>Timeouts\<close>

lemma advance_idle:
  "timeouts s = [] \<Longrightarrow> advance d dt s = s \<lparr> clock := clock s + dt \<rparr>"
  by (simp add: advance_def Let_def)

lemma advance_early:
  "timeouts s = [t] \<Longrightarrow> \<not> due t \<le> clock s + dt \<Longrightarrow>
   advance d dt s = s \<lparr> clock := clock s + dt \<rparr>"
  by (simp add: advance_def Let_def)

lemma advance_due:
  "timeouts s = [t] \<Longrightarrow> due t \<le> clock s + dt \<Longrightarrow>
   advance d dt s = fire d t (s \<lparr> clock := clock s + dt, timeouts := [] \<rparr>)"
  by (simp add: advance_def Let_def)

lemma elapsed_nonneg: "forwardInTime es \<Longrightarrow> 0 \<le> elapsed es"
  by (induction es rule: elapsed.induct) simp_all

lemma run_idle:
  "\<forall>e \<in> set es. \<not> isRoll e \<Longrightarrow> timeouts s = [] \<Longrightarrow>
   completed (run lib d es s) = completed s \<and> ui (run lib d es s) = ui s"
proof (induction es arbitrary: s)
  case Nil
  then show ?case by simp
next
  case (Cons e es)
  show ?case
  proof (cases e)
    case (Roll r)
    with Cons.prems show ?thesis by simp
  next
    case (Frame delta sp)
    with Cons show ?thesis by (simp add: useFrame_keeps)
  next
    case (Advance dt)
    with Cons show ?thesis by (simp add: advance_idle)
  qed
qed

text \<open>
  With one timeout pending and still in the future, a run without rolls reports that
  timeout's face once the time it adds up to reaches the due time, and nothing before.
\<close>

lemma run_pending:
  "\<forall>e \<in> set es. \<not> isRoll e \<Longrightarrow> forwardInTime es \<Longrightarrow> timeouts s = [t] \<Longrightarrow>
   clock s < due t \<Longrightarrow>
   completed (run lib d es s) =
     (if due t \<le> clock s + elapsed es
      then (if d \<noteq> D10 \<and> onRollComplete s then completed s @ [faceNumber t] else completed s)
      else completed s)
   \<and> result (ui (run lib d es s)) = result (ui s)"
proof (induction es arbitrary: s)
  case Nil
  then show ?case by simp
next
  case (Cons e es)
  show ?case
  proof (cases e)
    case (Roll r)
    with Cons.prems show ?thesis by simp
  next
    case (Frame delta sp)
    with Cons show ?thesis by (simp add: useFrame_keeps)
  next
    case (Advance dt)
    show ?thesis
    proof (cases "due t \<le> clock s + dt")
      case True
      have idle: "timeouts (advance d dt s) = []"
        using Cons.prems(3) True by (simp add: advance_due fire_def)
      have "0 \<le> elapsed es"
        using Cons.prems(2) Advance elapsed_nonneg by simp
      with Cons.prems True Advance run_idle [OF _ idle, of es lib d]
      show ?thesis
        by (simp add: advance_due fire_def)
    next
      case False
      with Cons Advance show ?thesis
        by (simp add: advance_early add.assoc)
    qed
  qed
qed

text \<open>
  A roll started on an idle die, followed by frames and passing time: the result shown
  is the drawn face from the start; the face is reported once the tumble duration has
  passed, by every die but D10.
\<close>

lemma roll_then_run:
  assumes idle: "\<not> rolling (ui s)" "timeouts s = []"
    and es: "\<forall>e \<in> set es. \<not> isRoll e" "forwardInTime es"
  shows "completed (run lib d (Roll r # es) s) =
           (if ROLL_DURATION_MS d \<le> elapsed es \<and> d \<noteq> D10 \<and> onRollComplete s
            then completed s @ [\<lfloor>faceDraw r * real_of_int (sides d)\<rfloor> + 1]
            else completed s)
         \<and> result (ui (run lib d (Roll r # es) s)) =
             \<lfloor>faceDraw r * real_of_int (sides d)\<rfloor> + 1"
proof -
  let ?s = "rollDice lib d r s"
  let ?t = "\<lparr> due = clock s + ROLL_DURATION_MS d,
              faceNumber = \<lfloor>faceDraw r * real_of_int (sides d)\<rfloor> + 1,
              target = rolledQuaternion lib d \<lfloor>faceDraw r * real_of_int (sides d)\<rfloor> \<rparr>"
  have t: "timeouts ?s = [?t]"
    using idle by (simp add: rollDice_def resetEffect_def Let_def)
  have c: "clock (rollDice lib d' r s) = clock s"
    "completed (rollDice lib d' r s) = completed s"
    "onRollComplete (rollDice lib d' r s) = onRollComplete s"
    "result (ui (rollDice lib d' r s)) = \<lfloor>faceDraw r * real_of_int (sides d')\<rfloor> + 1" for d'
    using idle by (simp_all add: rollDice_def resetEffect_def Let_def)
  have future: "clock ?s < due ?t"
    by (simp add: c ROLL_DURATION_MS_def)
  from run_pending [OF es t future, of lib d] show ?thesis
    by (simp add: c)
qed

text \<open>
  When the tumble duration has passed, the roll is over and the target handed to the mesh
  is the quaternion \<open>rollDice\<close> computed for the drawn face.
\<close>

lemma commanded_target:
  assumes "\<not> rolling (ui s)" "timeouts s = []" "ROLL_DURATION_MS d \<le> dt"
  shows "targetQuat (ui (advance d dt (rollDice lib d r s))) =
           Some (rolledQuaternion lib d \<lfloor>faceDraw r * real_of_int (sides d)\<rfloor>)
         \<and> \<not> rolling (ui (advance d dt (rollDice lib d r s)))"
  using assms
  by (simp add: advance_def rollDice_def resetEffect_def fire_def Let_def)

section \<open>Floor contact\<close>







section \<open>Claims about rolling\<close>

text \<open>
  C1. The claim: every roll that starts, on each of the six dice, calls \<^verbatim>\<open>onRollComplete\<close>
  exactly once, after the tumble duration, with a face number in \<open>[1, N]\<close>. D10's
  timeout callback never calls \<^verbatim>\<open>onRollComplete\<close>: whatever happens to a D10, and
  whether or not the parent passed a callback, nothing is ever reported. (For the other
  five dice \<open>roll_then_run\<close> shows the single call once the duration has passed, and
  \<open>face_number_in_range\<close> that its argument lies in \<open>[1, N]\<close>.)
\<close>

theorem D10_never_reports: "completed (run lib D10 es s) = completed s"
proof (induction es arbitrary: s)
  case Nil
  show ?case by simp
next
  case (Cons e es)
  have fired: "completed (fireAll D10 ts s') = completed s'" for ts s'
    by (induction ts arbitrary: s') (simp_all add: fire_def)
  have "completed (step lib D10 e s) = completed s"
    by (cases e)
      (simp_all add: rollDice_def resetEffect_def Let_def useFrame_keeps advance_def fired)
  with Cons show ?case by simp
qed

text \<open>
  C3. Calling \<^verbatim>\<open>rollDice\<close> while a roll is in progress changes nothing: the whole state
  stays as it is, with the result, the roll direction, the pending timeout and the
  target quaternion it holds, and the time at which it is due.
\<close>

theorem roll_while_rolling_is_noop: "rolling (ui s) \<Longrightarrow> rollDice lib d r s = s"
  by (simp add: rollDice_def)

theorem roll_while_rolling_is_noop_witness:
  "rolling (ui (rollDice stand_in D6 \<lparr>faceDraw = 1/2, dirX = 1/2, dirY = 0, dirZ = 1/2\<rparr>
                  (mount stand_in D6 True)))
   \<and> rollDice stand_in D6 \<lparr>faceDraw = 0, dirX = 0, dirY = 0, dirZ = 0\<rparr>
        (rollDice stand_in D6 \<lparr>faceDraw = 1/2, dirX = 1/2, dirY = 0, dirZ = 1/2\<rparr>
           (mount stand_in D6 True))
     = rollDice stand_in D6 \<lparr>faceDraw = 1/2, dirX = 1/2, dirY = 0, dirZ = 1/2\<rparr>
         (mount stand_in D6 True)"
  using roll_while_rolling_is_noop
    [of "rollDice stand_in D6 \<lparr>faceDraw = 1/2, dirX = 1/2, dirY = 0, dirZ = 1/2\<rparr>
           (mount stand_in D6 True)"
        stand_in D6 "\<lparr>faceDraw = 0, dirX = 0, dirY = 0, dirZ = 0\<rparr>"]
  by (simp add: rolling_rollDice)

text \<open>
  C10. The face a roll reports depends on the face draw alone. Two rolls started on
  idle dice with the same face draw, whatever their direction draws, frames, frame times
  and spin draws, report the same faces and show the same result; the result is set by
  \<^verbatim>\<open>rollDice\<close> itself, when nothing has been reported yet and the timeout is due one
  tumble duration later.
\<close>

theorem reported_face_determined_by_face_draw:
  assumes "\<not> rolling (ui s1)" "timeouts s1 = []" "\<not> rolling (ui s2)" "timeouts s2 = []"
    and "completed s1 = completed s2" "onRollComplete s1 = onRollComplete s2"
    and "faceDraw r1 = faceDraw r2"
    and "\<forall>e \<in> set es1. \<not> isRoll e" "forwardInTime es1" "ROLL_DURATION_MS d \<le> elapsed es1"
    and "\<forall>e \<in> set es2. \<not> isRoll e" "forwardInTime es2" "ROLL_DURATION_MS d \<le> elapsed es2"
  shows "result (ui (rollDice lib d r1 s1)) = \<lfloor>faceDraw r1 * real_of_int (sides d)\<rfloor> + 1
    \<and> completed (rollDice lib d r1 s1) = completed s1
    \<and> map due (timeouts (rollDice lib d r1 s1)) = [clock s1 + ROLL_DURATION_MS d]
    \<and> completed (run lib d (Roll r1 # es1) s1) = completed (run lib d (Roll r2 # es2) s2)
    \<and> result (ui (run lib d (Roll r1 # es1) s1)) = result (ui (run lib d (Roll r2 # es2) s2))
    \<and> completed (run lib d (Roll r1 # es1) s1) =
        (if d \<noteq> D10 \<and> onRollComplete s1
         then completed s1 @ [\<lfloor>faceDraw r1 * real_of_int (sides d)\<rfloor> + 1]
         else completed s1)"
proof -
  have start: "result (ui (rollDice lib d r1 s1)) = \<lfloor>faceDraw r1 * real_of_int (sides d)\<rfloor> + 1"
    "completed (rollDice lib d r1 s1) = completed s1"
    "map due (timeouts (rollDice lib d r1 s1)) = [clock s1 + ROLL_DURATION_MS d]"
    using assms(1,2) by (simp_all add: rollDice_def resetEffect_def Let_def)
  from roll_then_run [OF assms(1,2) assms(8,9), of lib d r1]
    roll_then_run [OF assms(3,4) assms(11,12), of lib d r2]
    assms(5,6,7,10,13) start
  show ?thesis by simp
qed

theorem reported_face_determined_by_face_draw_witness:
  "\<not> rolling (ui (mount stand_in D6 True)) \<and> timeouts (mount stand_in D6 True) = []
   \<and> faceDraw \<lparr>faceDraw = 1 / 2, dirX = 1 / 2, dirY = 0, dirZ = 1 / 2\<rparr> =
       faceDraw \<lparr>faceDraw = 1 / 2, dirX = 0, dirY = 3 / 4, dirZ = 1 / 4\<rparr>
   \<and> ROLL_DURATION_MS D6 \<le> elapsed [Frame (1 / 2) \<lparr>spinX = 0, spinY = 0, spinZ = 0\<rparr>, Advance 1000]
   \<and> ROLL_DURATION_MS D6 \<le> elapsed [Advance 400, Frame (1 / 10) \<lparr>spinX = 1 / 2, spinY = 0, spinZ = 0\<rparr>,
        Frame (1 / 3) \<lparr>spinX = 0, spinY = 1 / 2, spinZ = 1 / 4\<rparr>, Advance 700]
   \<and> completed (run stand_in D6
        (Roll \<lparr>faceDraw = 1 / 2, dirX = 1 / 2, dirY = 0, dirZ = 1 / 2\<rparr> #
           [Frame (1 / 2) \<lparr>spinX = 0, spinY = 0, spinZ = 0\<rparr>, Advance 1000])
        (mount stand_in D6 True)) = [4]
   \<and> completed (run stand_in D6
        (Roll \<lparr>faceDraw = 1 / 2, dirX = 0, dirY = 3 / 4, dirZ = 1 / 4\<rparr> #
           [Advance 400, Frame (1 / 10) \<lparr>spinX = 1 / 2, spinY = 0, spinZ = 0\<rparr>,
            Frame (1 / 3) \<lparr>spinX = 0, spinY = 1 / 2, spinZ = 1 / 4\<rparr>, Advance 700])
        (mount stand_in D6 True)) = [4]"
proof -
  let ?s = "mount stand_in D6 True"
  let ?r1 = "\<lparr>faceDraw = 1 / 2, dirX = 1 / 2, dirY = 0, dirZ = 1 / 2\<rparr>"
  let ?r2 = "\<lparr>faceDraw = 1 / 2, dirX = 0, dirY = 3 / 4, dirZ = 1 / 4\<rparr>"
  let ?es1 = "[Frame (1 / 2) \<lparr>spinX = 0, spinY = 0, spinZ = 0\<rparr>, Advance 1000]"
  let ?es2 = "[Advance 400, Frame (1 / 10) \<lparr>spinX = 1 / 2, spinY = 0, spinZ = 0\<rparr>,
        Frame (1 / 3) \<lparr>spinX = 0, spinY = 1 / 2, spinZ = 1 / 4\<rparr>, Advance 700]"
  have idle: "\<not> rolling (ui ?s)" "timeouts ?s = []"
    by (simp_all add: mount_def resetEffect_def)
  have same: "faceDraw ?r1 = faceDraw ?r2" "completed ?s = completed ?s"
    "onRollComplete ?s = onRollComplete ?s"
    by simp_all
  have e1: "\<forall>e \<in> set ?es1. \<not> isRoll e" "forwardInTime ?es1" "ROLL_DURATION_MS D6 \<le> elapsed ?es1"
    by (simp_all add: ROLL_DURATION_MS_def)
  have e2: "\<forall>e \<in> set ?es2. \<not> isRoll e" "forwardInTime ?es2" "ROLL_DURATION_MS D6 \<le> elapsed ?es2"
    by (simp_all add: ROLL_DURATION_MS_def)
  have shown: "onRollComplete ?s" "completed ?s = []" "\<lfloor>faceDraw ?r1 * real_of_int (sides D6)\<rfloor> + 1 = 4"
    by (simp_all add: mount_def resetEffect_def sides_def)
  note T = reported_face_determined_by_face_draw [OF idle idle same(2,3,1) e1 e2, of stand_in]
  from T have a: "completed (run stand_in D6 (Roll ?r1 # ?es1) ?s) =
      completed (run stand_in D6 (Roll ?r2 # ?es2) ?s)"
    by blast
  from T have "completed (run stand_in D6 (Roll ?r1 # ?es1) ?s) =
      (if D6 \<noteq> D10 \<and> onRollComplete ?s
       then completed ?s @ [\<lfloor>faceDraw ?r1 * real_of_int (sides D6)\<rfloor> + 1]
       else completed ?s)"
    by blast
  then have b: "completed (run stand_in D6 (Roll ?r1 # ?es1) ?s) = [4]"
    by (simp only: shown) simp
  from a b have c: "completed (run stand_in D6 (Roll ?r2 # ?es2) ?s) = [4]"
    by (simp only:)
  from idle same(1) e1(3) e2(3) b c show ?thesis
    by (simp only:) simp
qed

section \<open>Claims about frames\<close>




text \<open>
  C9. A frame of a die that is not rolling and has a target sets the mesh's quaternion to
  \<^verbatim>\<open>slerp\<close> of the target with the parameter \<open>min 1 (6 * delta)\<close> for D4, D6, D8, D10 and
  D20, which is never above 1; D12's frame hands over \<open>6 * delta\<close> itself, which is above
  1 as soon as the frame time is above a sixth of a second.
\<close>

theorem slerp_parameter:
  "(\<not> rolling (ui s) \<and> targetQuat (ui s) = Some tq \<and> d \<noteq> D12 \<longrightarrow>
      quaternion (mesh (useFrame lib d delta sp s)) =
        slerp lib (quaternion (mesh s)) tq (min 1 (delta * 6)))
   \<and> (\<not> rolling (ui s) \<and> targetQuat (ui s) = Some tq \<longrightarrow>
      quaternion (mesh (useFrame lib D12 delta sp s)) =
        slerp lib (quaternion (mesh s)) tq (delta * 6))
   \<and> (\<not> rolling (ui s) \<and> targetQuat (ui s) = Some tq \<longrightarrow>
      quaternion (mesh (useFrame lib d delta sp s)) =
        slerp lib (quaternion (mesh s)) tq (slerpParameter d delta))
   \<and> (d \<noteq> D12 \<longrightarrow> slerpParameter d delta = min 1 (delta * 6) \<and> slerpParameter d delta \<le> 1)
   \<and> slerpParameter D12 delta = delta * 6
   \<and> (1 / 6 < delta \<longrightarrow> 1 < slerpParameter D12 delta)"
  by (simp add: useFrame_def settleMesh_def slerpParameter_def)

theorem slerp_parameter_witness:
  "\<not> rolling (ui (advance D6 1000 (rollDice stand_in D6
        \<lparr>faceDraw = 1 / 2, dirX = 1 / 2, dirY = 0, dirZ = 1 / 2\<rparr> (mount stand_in D6 True))))
   \<and> targetQuat (ui (advance D6 1000 (rollDice stand_in D6
        \<lparr>faceDraw = 1 / 2, dirX = 1 / 2, dirY = 0, dirZ = 1 / 2\<rparr> (mount stand_in D6 True))))
       = Some (getFaceQuaternion 4)
   \<and> D6 \<noteq> D12
   \<and> quaternion (mesh (useFrame stand_in D6 (1 / 2) \<lparr>spinX = 0, spinY = 0, spinZ = 0\<rparr>
        (advance D6 1000 (rollDice stand_in D6
           \<lparr>faceDraw = 1 / 2, dirX = 1 / 2, dirY = 0, dirZ = 1 / 2\<rparr> (mount stand_in D6 True)))))
       = slerp stand_in
           (quaternion (mesh (advance D6 1000 (rollDice stand_in D6
              \<lparr>faceDraw = 1 / 2, dirX = 1 / 2, dirY = 0, dirZ = 1 / 2\<rparr>
              (mount stand_in D6 True)))))
           (getFaceQuaternion 4) (min 1 (1 / 2 * 6))
   \<and> slerpParameter D6 (1 / 2) \<le> 1
   \<and> 1 / 6 < (1 / 2 :: real) \<and> 1 < slerpParameter D12 (1 / 2)"
proof -
  let ?r = "\<lparr>faceDraw = 1 / 2, dirX = 1 / 2, dirY = 0, dirZ = 1 / 2\<rparr>"
  let ?s = "advance D6 1000 (rollDice stand_in D6 ?r (mount stand_in D6 True))"
  have idle: "\<not> rolling (ui (mount stand_in D6 True))" "timeouts (mount stand_in D6 True) = []"
    "ROLL_DURATION_MS D6 \<le> 1000"
    by (simp_all add: mount_def resetEffect_def ROLL_DURATION_MS_def)
  have q: "rolledQuaternion stand_in D6 \<lfloor>faceDraw ?r * real_of_int (sides D6)\<rfloor> =
      getFaceQuaternion 4"
    by (simp add: rolledQuaternion_def sides_def)
  from commanded_target [OF idle, of stand_in ?r]
  have h: "\<not> rolling (ui ?s)" "targetQuat (ui ?s) = Some (getFaceQuaternion 4)"
    unfolding q by blast+
  have six: "D6 \<noteq> D12" "1 / 6 < (1 / 2 :: real)" by simp_all
  note T = slerp_parameter [of ?s "getFaceQuaternion 4" D6 stand_in "1 / 2"
      "\<lparr>spinX = 0, spinY = 0, spinZ = 0\<rparr>"]
  from T h six(1) have a: "quaternion (mesh (useFrame stand_in D6 (1 / 2)
        \<lparr>spinX = 0, spinY = 0, spinZ = 0\<rparr> ?s))
      = slerp stand_in (quaternion (mesh ?s)) (getFaceQuaternion 4) (min 1 (1 / 2 * 6))"
    by blast
  from T six(1) have b: "slerpParameter D6 (1 / 2) \<le> 1" by blast
  from T six(2) have c: "1 < slerpParameter D12 (1 / 2)" by blast
  from h six a b c show ?thesis by blast
qed

section \<open>The stored geometry of the ten-sided die\<close>

lemma upt10: "[0 ..< 10] = [0, 1, 2, 3, 4, 5, 6, 7, 8, 9]"
  by (simp add: upt_rec)

lemma verts_apex: "getVertexByIndex verts 0 = Vector3 0 0 1" "getVertexByIndex verts 1 = Vector3 0 0 (- 1)"
  by (simp_all add: getVertexByIndex_def verts_def)

lemma verts_equator: "k < 10 \<Longrightarrow> getVertexByIndex verts (k + 2) = equator k"
proof -
  assume "k < 10"
  then have "k \<in> set [0 ..< 10]" by simp
  then have "k \<in> {0, 1, 2, 3, 4, 5, 6, 7, 8, 9}" unfolding upt10 by simp
  then show ?thesis
    by (auto simp add: getVertexByIndex_def verts_def equator_def upt10 Let_def)
qed

lemma createD10Geometry_explicit:
  "createD10Geometry = map (\<lambda>i. applyRadius 1 (getVertexByIndex verts i))
     [2, 3, 0, 3, 4, 0, 4, 5, 0, 5, 6, 0, 6, 7, 0, 7, 8, 0, 8, 9, 0, 9, 10, 0, 10, 11, 0, 11, 2, 0,
      3, 2, 1, 4, 3, 1, 5, 4, 1, 6, 5, 1, 7, 6, 1, 8, 7, 1, 9, 8, 1, 10, 9, 1, 11, 10, 1, 2, 11, 1]"
  by (simp add: createD10Geometry_def PolyhedronGeometry_def faces_def)


lemma lengthSq_equator: "lengthSq (equator k) = 1.011025"
proof -
  have "cos ((real k * pi * 2) / 10) * cos ((real k * pi * 2) / 10)
      + sin ((real k * pi * 2) / 10) * sin ((real k * pi * 2) / 10) = 1"
    using sin_cos_squared_add2 [of "(real k * pi * 2) / 10"] by (simp add: power2_eq_square)
  then show ?thesis
    by (simp add: lengthSq_def equator_def)
qed

lemma applyRadius_apex:
  "applyRadius 1 (Vector3 0 0 1) = topApex" "applyRadius 1 (Vector3 0 0 (- 1)) = bottomApex"
  by (simp_all add: applyRadius_def normalizeV_def lengthV_def lengthSq_def divideScalar_def
      multiplyScalar_def topApex_def bottomApex_def)

lemma distanceTo_self: "distanceTo a a = 0"
  by (simp add: distanceTo_def lengthV_def lengthSq_def subVectors_def)

lemma distanceTo_nonneg: "0 \<le> distanceTo a b"
  by (simp add: distanceTo_def lengthV_def lengthSq_def)

text \<open>An equatorial vertex, once on the unit sphere, is at a distance from both poles.\<close>

lemma rim_off_pole:
  "0 < distanceTo topApex (applyRadius 1 (equator k))"
  "0 < distanceTo bottomApex (applyRadius 1 (equator k))"
proof -
  define L where "L = sqrt 1.011025"
  have L: "0 < L" "lengthV (equator k) = L"
    by (simp_all add: L_def lengthV_def lengthSq_equator)
  define c where "c = cos ((real k * pi * 2) / 10)"
  define s where "s = sin ((real k * pi * 2) / 10)"
  have cs: "c * c + s * s = 1"
    using sin_cos_squared_add2 [of "(real k * pi * 2) / 10"]
    by (simp add: c_def s_def power2_eq_square)
  have "(c / L) * (c / L) + (s / L) * (s / L) = (c * c + s * s) / (L * L)"
    by (simp add: add_divide_distrib)
  then have plane: "0 < (c / L) * (c / L) + (s / L) * (s / L)"
    using L(1) by (simp only: cs) simp
  have r: "applyRadius 1 (equator k) =
      Vector3 (- c / L) (- s / L) (0.105 * (if k mod 2 \<noteq> 0 then 1 else - 1) / L)"
    using L by (simp add: applyRadius_def normalizeV_def divideScalar_def multiplyScalar_def
        equator_def c_def s_def)
  have "0 < lengthSq (subVectors p (applyRadius 1 (equator k)))" if "vx p = 0" "vy p = 0" for p
  proof -
    have "lengthSq (subVectors p (applyRadius 1 (equator k))) =
        ((c / L) * (c / L) + (s / L) * (s / L))
        + (vz p - vz (applyRadius 1 (equator k))) * (vz p - vz (applyRadius 1 (equator k)))"
      using that unfolding r by (simp add: lengthSq_def subVectors_def)
    with plane show ?thesis
      by (simp add: add_pos_nonneg)
  qed
  then show "0 < distanceTo topApex (applyRadius 1 (equator k))"
    "0 < distanceTo bottomApex (applyRadius 1 (equator k))"
    by (simp_all add: distanceTo_def lengthV_def topApex_def bottomApex_def)
qed

lemma rim_height:
  "vz (applyRadius 1 (equator k)) = (if k mod 2 \<noteq> 0 then 1 else - 1) * (0.105 / sqrt 1.011025)"
proof -
  have "lengthV (equator k) = sqrt 1.011025" "sqrt 1.011025 \<noteq> 0"
    by (simp_all add: lengthV_def lengthSq_equator)
  then show ?thesis
    by (simp add: applyRadius_def normalizeV_def divideScalar_def multiplyScalar_def equator_def)
qed

lemma rim_y:
  "vy (applyRadius 1 (equator k)) = - sin ((real k * pi * 2) / 10) / sqrt 1.011025"
proof -
  have "lengthV (equator k) = sqrt 1.011025" "sqrt 1.011025 \<noteq> 0"
    by (simp_all add: lengthV_def lengthSq_equator)
  then show ?thesis
    by (simp add: applyRadius_def normalizeV_def divideScalar_def multiplyScalar_def equator_def)
qed

lemma stored_pole: "stored 0 = topApex" "stored 1 = bottomApex"
  unfolding stored_def verts_apex applyRadius_apex by (rule refl)+

lemma stored_pole_Suc: "stored (Suc 0) = bottomApex"
  using stored_pole(2) by simp

lemma stored_equator:
  assumes "2 \<le> i" "i \<le> 11"
  shows "stored i = applyRadius 1 (equator (i - 2))"
proof -
  from assms have "i - 2 < 10" "i = (i - 2) + 2" by simp_all
  then show ?thesis
    using verts_equator [of "i - 2"] by (simp add: stored_def)
qed

lemma stored_rim:
  assumes "2 \<le> i" "i \<le> 11"
  shows "0 < distanceTo topApex (stored i)" "0 < distanceTo bottomApex (stored i)"
    "vz (stored i) = (if even i then - 1 else 1) * (0.105 / sqrt 1.011025)"
proof -
  note e = stored_equator [OF assms]
  show "0 < distanceTo topApex (stored i)" "0 < distanceTo bottomApex (stored i)"
    unfolding e by (rule rim_off_pole)+
  have "even i = even (i - 2)" using assms by simp
  then show "vz (stored i) = (if even i then - 1 else 1) * (0.105 / sqrt 1.011025)"
    unfolding e rim_height by (simp add: even_iff_mod_2_eq_zero)
qed

lemma createD10Geometry_stored:
  "createD10Geometry = map stored
     [2, 3, 0, 3, 4, 0, 4, 5, 0, 5, 6, 0, 6, 7, 0, 7, 8, 0, 8, 9, 0, 9, 10, 0, 10, 11, 0, 11, 2, 0,
      3, 2, 1, 4, 3, 1, 5, 4, 1, 6, 5, 1, 7, 6, 1, 8, 7, 1, 9, 8, 1, 10, 9, 1, 11, 10, 1, 2, 11, 1]"
  unfolding createD10Geometry_explicit stored_def by (rule refl)

lemma faces_D10:
  assumes "f < 10"
  shows "triangle position_D10 (2 * f) =
           [position_D10 (f * 2 * 3), position_D10 (f * 2 * 3 + 1), pole f]
    \<and> position_D10 (f * 2 * 3 + 2) = pole f
    \<and> 0 < distanceTo (pole f) (position_D10 (f * 2 * 3))
    \<and> 0 < distanceTo (pole f) (position_D10 (f * 2 * 3 + 1))
    \<and> vz (position_D10 (f * 2 * 3)) + vz (position_D10 (f * 2 * 3 + 1)) = 0
    \<and> (\<exists>p q. triangle position_D10 (2 * f + 1) = [p, q, pole f])"
proof -
  from assms have "f \<in> set [0 ..< 10]" by simp
  then have "f \<in> {0, 1, 2, 3, 4, 5, 6, 7, 8, 9}" unfolding upt10 by simp
  then consider "f = 0" | "f = 1" | "f = 2" | "f = 3" | "f = 4"
    | "f = 5" | "f = 6" | "f = 7" | "f = 8" | "f = 9" by auto
  then show ?thesis
    by cases
      (simp_all add: triangle_def position_D10_def createD10Geometry_stored stored_pole
        stored_pole_Suc stored_rim pole_def)
qed

lemma stored_2_4: "vy (stored 2) = 0" "vy (stored 4) < 0"
proof -
  have e: "stored 2 = applyRadius 1 (equator 0)" "stored 4 = applyRadius 1 (equator 2)"
    using stored_equator [of 2] stored_equator [of 4] by simp_all
  show "vy (stored 2) = 0"
    unfolding e rim_y by simp
  have "0 < sin (2 * pi / 5)"
    by (rule sin_gt_zero) (simp_all add: pi_gt_zero)
  then show "vy (stored 4) < 0"
    unfolding e rim_y by (simp add: divide_neg_pos)
qed

section \<open>The face table of the ten-sided die\<close>

text \<open>The loop over the three candidates ends on the third when that one is the pole itself.\<close>

lemma nearest_third:
  assumes "distanceTo t v2 = 0" "0 < distanceTo t v0" "0 < distanceTo t v1"
  shows "fst (nearest t [v0, v1, v2] (v0, distanceTo t v0)) = v2"
  using assms by (simp add: Let_def)

lemma nearer_pole:
  "(distanceTo c topApex \<le> distanceTo c bottomApex) = (0 \<le> vz c)"
  by (simp add: distanceTo_def lengthV_def lengthSq_def subVectors_def topApex_def bottomApex_def
      algebra_simps)

lemma dot_normalizeV:
  "dot a (normalizeV w) = dot a w / (if lengthV w = 0 then 1 else lengthV w)"
  by (simp add: dot_def normalizeV_def divideScalar_def multiplyScalar_def add_divide_distrib)

lemma in_plane:
  "dot (subVectors v2 (divideScalar (addVectors (addVectors (addVectors origin v0) v1) v2) 3))
       (crossVectors (subVectors v1 v0) (subVectors v2 v0)) = 0"
proof -
  obtain a0 b0 c0 a1 b1 c1 a2 b2 c2
    where v: "v0 = Vector3 a0 b0 c0" "v1 = Vector3 a1 b1 c1" "v2 = Vector3 a2 b2 c2"
    by (cases v0, cases v1, cases v2) blast
  have "(a2 - (a0 + a1 + a2) * t) * ((b1 - b0) * (c2 - c0) - (c1 - c0) * (b2 - b0))
      + (b2 - (b0 + b1 + b2) * t) * ((c1 - c0) * (a2 - a0) - (a1 - a0) * (c2 - c0))
      + (c2 - (c0 + c1 + c2) * t) * ((a1 - a0) * (b2 - b0) - (b1 - b0) * (a2 - a0)) = 0"
    if "3 * t = 1" for t :: real
    using that by algebra
  from this [of "1 / 3"] show ?thesis
    by (simp add: v dot_def subVectors_def divideScalar_def multiplyScalar_def addVectors_def
      crossVectors_def origin_def)
qed


lemma faceData_D10_nth: "f < 10 \<Longrightarrow> faceData_D10 attr ! f = faceEntry_D10 attr f"
  by (simp add: faceData_D10_def)

lemma pole_height: "vz (pole f) = (if f < 5 then 1 else - 1)"
  by (simp add: pole_def topApex_def bottomApex_def)

lemma faceEntry_D10_real:
  assumes "f < 10"
  shows "vz (center (faceEntry_D10 position_D10 f)) = (if f < 5 then 1 / 3 else - 1 / 3)"
    and "topDir (faceEntry_D10 position_D10 f) =
           subVectors (pole f) (center (faceEntry_D10 position_D10 f))"
proof -
  define v0 where "v0 = position_D10 (f * 2 * 3)"
  define v1 where "v1 = position_D10 (f * 2 * 3 + 1)"
  define c where "c = divideScalar (addVectors (addVectors (addVectors origin v0) v1) (pole f)) 3"
  note F = faces_D10 [OF assms, folded v0_def v1_def]
  from F have v2: "position_D10 (f * 2 * 3 + 2) = pole f" by blast
  from F have z: "vz v0 + vz v1 = 0" by blast
  have entry: "center (faceEntry_D10 position_D10 f) = c"
    "topDir (faceEntry_D10 position_D10 f) =
       subVectors (fst (nearest (if vz c \<ge> 0 then topApex else bottomApex) [v0, v1, pole f]
          (v0, distanceTo (if vz c \<ge> 0 then topApex else bottomApex) v0))) c"
    unfolding faceEntry_D10_def Let_def v2 v0_def v1_def c_def by simp_all
  have "vz c = (vz v0 + vz v1 + vz (pole f)) * (1 / 3)"
    by (simp add: c_def divideScalar_def multiplyScalar_def addVectors_def origin_def)
  also have "\<dots> = vz (pole f) * (1 / 3)"
    by (simp only: z) simp
  finally have cz: "vz c = (if f < 5 then 1 / 3 else - 1 / 3)"
    by (cases "f < 5") (simp_all add: pole_height)
  then have target: "(if vz c \<ge> 0 then topApex else bottomApex) = pole f"
    by (simp add: pole_def)
  have best: "fst (nearest (pole f) [v0, v1, pole f] (v0, distanceTo (pole f) v0)) = pole f"
    using F by (intro nearest_third distanceTo_self) blast+
  show "vz (center (faceEntry_D10 position_D10 f)) = (if f < 5 then 1 / 3 else - 1 / 3)"
    unfolding entry by (rule cz)
  show "topDir (faceEntry_D10 position_D10 f) =
           subVectors (pole f) (center (faceEntry_D10 position_D10 f))"
    unfolding entry target best by (rule refl)
qed


lemma lengthV_normalizeV: "lengthV c \<noteq> 0 \<Longrightarrow> lengthV (normalizeV c) = 1"
proof -
  assume nz: "lengthV c \<noteq> 0"
  have pos: "0 \<le> lengthSq c" by (simp add: lengthSq_def)
  have "lengthSq (normalizeV c) = lengthSq c / (lengthV c * lengthV c)"
    using nz by (simp add: normalizeV_def divideScalar_def multiplyScalar_def lengthSq_def
        field_simps)
  also have "lengthV c * lengthV c = lengthSq c"
    using pos by (simp add: lengthV_def)
  finally have "lengthSq (normalizeV c) = 1"
    using nz by (simp add: lengthV_def)
  then show ?thesis by (simp add: lengthV_def)
qed

text \<open>
  The normal of a triangle with two vertices at opposite heights over circles of the same
  radius about the axis, and the third vertex on the axis at height 1 or -1: it is not
  zero, and its height is at most that of its horizontal part.
\<close>

lemma kite_normal:
  fixes x0 y0 g x1 y1 s rho :: real
  assumes p0: "x0 * x0 + y0 * y0 = rho" and p1: "x1 * x1 + y1 * y1 = rho"
    and rho: "0 < rho" "rho \<le> 1" and s: "s * s = 1" and g: "g \<noteq> 0"
  shows "lengthV (normalizeV (crossVectors (subVectors (Vector3 x1 y1 (- g)) (Vector3 x0 y0 g))
            (subVectors (Vector3 0 0 s) (Vector3 x0 y0 g)))) = 1"
    and "EPSILON \<le> vz (normalizeV (crossVectors (subVectors (Vector3 x1 y1 (- g)) (Vector3 x0 y0 g))
            (subVectors (Vector3 0 0 s) (Vector3 x0 y0 g)))) + 1"
proof -
  define c where "c = crossVectors (subVectors (Vector3 x1 y1 (- g)) (Vector3 x0 y0 g))
            (subVectors (Vector3 0 0 s) (Vector3 x0 y0 g))"
  define t where "t = x0 * x1 + y0 * y1"
  define h2 where "h2 = vx c * vx c + vy c * vy c"
  have cz: "vz c = x0 * y1 - x1 * y0"
    by (simp add: c_def crossVectors_def subVectors_def algebra_simps)
  have "(x1 - x0) * (x1 - x0) + (y1 - y0) * (y1 - y0) =
      (x0 * x0 + y0 * y0) + (x1 * x1 + y1 * y1) - 2 * t"
    by (simp add: t_def algebra_simps)
  then have D: "(x1 - x0) * (x1 - x0) + (y1 - y0) * (y1 - y0) = 2 * (rho - t)"
    unfolding p0 p1 by simp
  then have D0: "0 \<le> rho - t"
    using sum_squares_ge_zero [of "x1 - x0" "y1 - y0"] by simp
  have "vz c * vz c = (x0 * x0 + y0 * y0) * (x1 * x1 + y1 * y1) - t * t"
    by (simp add: cz t_def algebra_simps)
  then have lagrange: "vz c * vz c = (rho - t) * (rho + t)"
    unfolding p0 p1 by (simp add: algebra_simps)
  have S: "rho + t \<le> 2" using D0 rho by simp
  from S D0 have "(rho - t) * (rho + t) \<le> (rho - t) * 2"
    by (rule mult_left_mono)
  then have z_le: "vz c * vz c \<le> 2 * (rho - t)"
    unfolding lagrange by simp
  have "h2 = g * g * ((x0 + x1) * (x0 + x1) + (y0 + y1) * (y0 + y1))
      + (s * s) * ((x0 * x0 + y0 * y0) + (x1 * x1 + y1 * y1) - 2 * t)
      + 2 * g * s * ((x0 * x0 + y0 * y0) - (x1 * x1 + y1 * y1))"
    by (simp add: h2_def c_def t_def crossVectors_def subVectors_def algebra_simps)
  then have h: "h2 = g * g * ((x0 + x1) * (x0 + x1) + (y0 + y1) * (y0 + y1)) + 2 * (rho - t)"
    unfolding p0 p1 s by simp
  have sumsq: "0 \<le> (x0 + x1) * (x0 + x1) + (y0 + y1) * (y0 + y1)"
    by (rule sum_squares_ge_zero)
  then have "0 \<le> g * g * ((x0 + x1) * (x0 + x1) + (y0 + y1) * (y0 + y1))"
    by simp
  with h have h_ge: "2 * (rho - t) \<le> h2" by simp
  have h_pos: "0 < h2"
  proof (cases "rho - t = 0")
    case True
    then have "2 * (rho - t) = 0" by simp
    with D have "x1 - x0 = 0 \<and> y1 - y0 = 0"
      by (simp only: sum_squares_eq_zero_iff)
    then have "(x0 + x1) * (x0 + x1) + (y0 + y1) * (y0 + y1) = 4 * rho"
      using p0 by (simp add: algebra_simps)
    then have four: "0 < (x0 + x1) * (x0 + x1) + (y0 + y1) * (y0 + y1)"
      using rho by simp
    have "0 < g * g" using g by (cases "0 < g") (auto simp add: zero_less_mult_iff)
    from this four have "0 < g * g * ((x0 + x1) * (x0 + x1) + (y0 + y1) * (y0 + y1))"
      by (rule mult_pos_pos)
    with h True show ?thesis by simp
  next
    case False
    with D0 h_ge show ?thesis by simp
  qed
  have sq: "lengthSq c = h2 + vz c * vz c"
    by (simp add: lengthSq_def h2_def)
  have zz: "0 \<le> vz c * vz c" by simp
  from h_pos zz have cpos: "0 < lengthSq c" unfolding sq by (rule add_pos_nonneg)
  then have l: "0 < lengthV c" by (simp add: lengthV_def)
  then show "lengthV (normalizeV (crossVectors (subVectors (Vector3 x1 y1 (- g)) (Vector3 x0 y0 g))
            (subVectors (Vector3 0 0 s) (Vector3 x0 y0 g)))) = 1"
    unfolding c_def [symmetric] by (simp add: lengthV_normalizeV)
  have n: "vz (normalizeV c) = vz c / lengthV c"
    using l by (simp add: normalizeV_def divideScalar_def multiplyScalar_def)
  have ll: "lengthV c * lengthV c = lengthSq c"
    using cpos by (simp add: lengthV_def)
  from z_le h_ge have "2 * (vz c * vz c) \<le> lengthSq c"
    unfolding sq by simp
  then have half: "2 * (vz (normalizeV c) * vz (normalizeV c)) \<le> 1"
    unfolding n using l ll cpos by (simp add: field_simps)
  have "- (4 / 5) \<le> vz (normalizeV c)"
  proof (rule ccontr)
    assume "\<not> - (4 / 5) \<le> vz (normalizeV c)"
    then have "4 / 5 < - vz (normalizeV c)" by simp
    then have "(4 / 5) * (4 / 5) < (- vz (normalizeV c)) * (- vz (normalizeV c))"
      by (intro mult_strict_mono) simp_all
    with half show False by simp
  qed
  then show "EPSILON \<le> vz (normalizeV (crossVectors (subVectors (Vector3 x1 y1 (- g)) (Vector3 x0 y0 g))
            (subVectors (Vector3 0 0 s) (Vector3 x0 y0 g)))) + 1"
    unfolding c_def [symmetric] by (simp add: EPSILON_def)
qed


lemma rim_xy:
  "vx (applyRadius 1 (equator k)) * vx (applyRadius 1 (equator k))
   + vy (applyRadius 1 (equator k)) * vy (applyRadius 1 (equator k)) = 1 / 1.011025"
proof -
  define c where "c = cos ((real k * pi * 2) / 10)"
  define s where "s = sin ((real k * pi * 2) / 10)"
  define L :: real where "L = sqrt 1.011025"
  have cs: "c * c + s * s = 1"
    using sin_cos_squared_add2 [of "(real k * pi * 2) / 10"]
    by (simp add: c_def s_def power2_eq_square)
  have L: "lengthV (equator k) = L" "L \<noteq> 0" "L * L = 1.011025"
    by (simp_all add: L_def lengthV_def lengthSq_equator)
  have "vx (applyRadius 1 (equator k)) = - c / L" "vy (applyRadius 1 (equator k)) = - s / L"
    using L(1,2)
    by (simp_all add: applyRadius_def normalizeV_def divideScalar_def multiplyScalar_def
        equator_def c_def s_def)
  then have "vx (applyRadius 1 (equator k)) * vx (applyRadius 1 (equator k))
      + vy (applyRadius 1 (equator k)) * vy (applyRadius 1 (equator k)) = (c * c + s * s) / (L * L)"
    by (simp add: add_divide_distrib)
  then show ?thesis
    unfolding cs L(3) .
qed

lemma stored_rim_xy:
  assumes "2 \<le> i" "i \<le> 11"
  shows "vx (stored i) * vx (stored i) + vy (stored i) * vy (stored i) = 1 / 1.011025"
  unfolding stored_equator [OF assms] by (rule rim_xy)

lemma faces_D10_xy:
  assumes "f < 10"
  shows "vx (position_D10 (f * 2 * 3)) * vx (position_D10 (f * 2 * 3))
      + vy (position_D10 (f * 2 * 3)) * vy (position_D10 (f * 2 * 3)) = 1 / 1.011025
    \<and> vx (position_D10 (f * 2 * 3 + 1)) * vx (position_D10 (f * 2 * 3 + 1))
      + vy (position_D10 (f * 2 * 3 + 1)) * vy (position_D10 (f * 2 * 3 + 1)) = 1 / 1.011025
    \<and> vz (position_D10 (f * 2 * 3)) \<noteq> 0"
proof -
  from assms have "f \<in> set [0 ..< 10]" by simp
  then have "f \<in> {0, 1, 2, 3, 4, 5, 6, 7, 8, 9}" unfolding upt10 by simp
  then consider "f = 0" | "f = 1" | "f = 2" | "f = 3" | "f = 4"
    | "f = 5" | "f = 6" | "f = 7" | "f = 8" | "f = 9" by auto
  then show ?thesis
    by cases
      (simp_all add: position_D10_def createD10Geometry_stored stored_rim_xy stored_rim)
qed

text \<open>
  Every normal in the face table of the ten-sided die is a unit vector well away from
  pointing straight backwards.
\<close>

lemma D10_normals:
  assumes "f < 10"
  shows "lengthV (normal (faceData_D10 position_D10 ! f)) = 1"
    and "EPSILON \<le> vz (normal (faceData_D10 position_D10 ! f)) + 1"
proof -
  define v0 where "v0 = position_D10 (f * 2 * 3)"
  define v1 where "v1 = position_D10 (f * 2 * 3 + 1)"
  note F = faces_D10 [OF assms, folded v0_def v1_def]
  note X = faces_D10_xy [OF assms, folded v0_def v1_def]
  have n: "normal (faceData_D10 position_D10 ! f) =
      normalizeV (crossVectors (subVectors v1 v0) (subVectors (pole f) v0))"
    using F unfolding faceData_D10_nth [OF assms] faceEntry_D10_def Let_def v0_def v1_def
    by simp
  obtain x0 y0 g where v0: "v0 = Vector3 x0 y0 g" by (cases v0)
  obtain x1 y1 g1 where v1: "v1 = Vector3 x1 y1 g1" by (cases v1)
  from F have "vz v0 + vz v1 = 0" by blast
  then have g1: "g1 = - g" by (simp add: v0 v1)
  obtain s where p: "pole f = Vector3 0 0 s" "s * s = 1"
    by (cases "f < 5") (simp_all add: pole_def topApex_def bottomApex_def)
  from X have xy: "x0 * x0 + y0 * y0 = 1 / 1.011025" "x1 * x1 + y1 * y1 = 1 / 1.011025" "g \<noteq> 0"
    by (simp_all add: v0 v1)
  have rho: "(0::real) < 1 / 1.011025" "(1::real) / 1.011025 \<le> 1" by simp_all
  show "lengthV (normal (faceData_D10 position_D10 ! f)) = 1"
    unfolding n v0 v1 g1 p(1) using xy(1,2) rho p(2) xy(3) by (rule kite_normal(1))
  show "EPSILON \<le> vz (normal (faceData_D10 position_D10 ! f)) + 1"
    unfolding n v0 v1 g1 p(1) using xy(1,2) rho p(2) xy(3) by (rule kite_normal(2))
qed

section \<open>The rotation onto the forward direction\<close>

lemma EPSILON_pos: "0 < EPSILON"
  by (simp add: EPSILON_def)

text \<open>
  For a unit vector that does not point straight backwards, \<open>setFromUnitVectors\<close>
  towards \<open>forward\<close> written out.
\<close>

lemma solve_explicit:
  assumes unit: "lengthV (Vector3 a b c) = 1" and far: "EPSILON \<le> c + 1"
  obtains L where "0 < L" "L * L = 2 * (1 + c)" "a * a + b * b + c * c = 1"
    "setFromUnitVectors (Vector3 a b c) forward = Quaternion (b / L) (- a / L) 0 ((1 + c) / L)"
proof -
  from unit have "lengthSq (Vector3 a b c) = 1"
    by (simp add: lengthV_def)
  then have sq: "a * a + b * b + c * c = 1"
    by (simp add: lengthSq_def)
  from far EPSILON_pos have c: "0 < 1 + c"
    by simp
  define L where "L = sqrt (b * b + a * a + (1 + c) * (1 + c))"
  have "b * b + a * a + (1 + c) * (1 + c) = 2 * (1 + c)"
    using sq by algebra
  with c have L2: "L * L = 2 * (1 + c)" and Lpos: "0 < L"
    by (simp_all add: L_def)
  have Lne: "L \<noteq> 0" using Lpos by simp
  have q: "setFromUnitVectors (Vector3 a b c) forward =
      Quaternion (b / L) (- a / L) 0 ((1 + c) / L)"
  proof -
    have r: "\<not> dot (Vector3 a b c) forward + 1 < EPSILON"
      using far by (simp add: forward_def dot_def)
    have raw: "qlength (Quaternion b (- a) 0 (c + 1)) = L"
      "qlength (Quaternion b (- a) 0 (1 + c)) = L"
      by (simp_all add: qlength_def L_def add.commute)
    show ?thesis
      unfolding setFromUnitVectors_def Let_def if_not_P [OF r]
      using Lne by (simp add: forward_def dot_def normalizeQ_def raw)
  qed
  from Lpos L2 sq q show ?thesis by (rule that)
qed

lemma solve_forward:
  assumes unit: "lengthV n = 1" and far: "EPSILON \<le> vz n + 1"
  shows "applyQuaternion n (setFromUnitVectors n forward) = forward"
proof -
  obtain a b c where n: "n = Vector3 a b c" by (cases n)
  from assms obtain L where Lpos: "0 < L" and L2: "L * L = 2 * (1 + c)"
    and sq: "a * a + b * b + c * c = 1"
    and q: "setFromUnitVectors n forward = Quaternion (b / L) (- a / L) 0 ((1 + c) / L)"
    unfolding n by (auto elim: solve_explicit)
  have Lne: "L \<noteq> 0" using Lpos by simp
  have x: "a + (1 + c) / L * (2 * (- a / L * c)) + - a / L * (2 * (b / L * b - - a / L * a)) = 0"
  proof -
    have "(a + (1 + c) / L * (2 * (- a / L * c)) + - a / L * (2 * (b / L * b - - a / L * a))) * (L * L)
      = a * (L * L) - 2 * a * c * (1 + c) - 2 * a * (b * b + a * a)"
      using Lne by (simp add: field_simps)
    also have "\<dots> = 0"
      unfolding L2 using sq by algebra
    finally show ?thesis using Lne by simp
  qed
  have y: "b + (1 + c) / L * (2 * (0 * a - b / L * c)) - b / L * (2 * (b / L * b - - a / L * a)) = 0"
  proof -
    have "(b + (1 + c) / L * (2 * (0 * a - b / L * c)) - b / L * (2 * (b / L * b - - a / L * a))) * (L * L)
      = b * (L * L) - 2 * b * c * (1 + c) - 2 * b * (b * b + a * a)"
      using Lne by (simp add: field_simps)
    also have "\<dots> = 0"
      unfolding L2 using sq by algebra
    finally show ?thesis using Lne by simp
  qed
  have z: "c + (1 + c) / L * (2 * (b / L * b - - a / L * a)) + b / L * (2 * (0 * a - b / L * c))
      - - a / L * (2 * (- a / L * c)) = 1"
  proof -
    have "(c + (1 + c) / L * (2 * (b / L * b - - a / L * a)) + b / L * (2 * (0 * a - b / L * c))
      - - a / L * (2 * (- a / L * c)) - 1) * (L * L)
      = (c - 1) * (L * L) + 2 * (1 + c) * (b * b + a * a) - 2 * c * (b * b + a * a)"
      using Lne by (simp add: field_simps)
    also have "\<dots> = 0"
      unfolding L2 using sq by algebra
    finally show ?thesis using Lne by simp
  qed
  show ?thesis
    unfolding q using x y z
    by (simp add: applyQuaternion_def n forward_def Let_def)
qed

lemma solve_unit:
  assumes unit: "lengthV n = 1" and far: "EPSILON \<le> vz n + 1"
  shows "qx (setFromUnitVectors n forward) * qx (setFromUnitVectors n forward)
       + qy (setFromUnitVectors n forward) * qy (setFromUnitVectors n forward)
       + qz (setFromUnitVectors n forward) * qz (setFromUnitVectors n forward)
       + qw (setFromUnitVectors n forward) * qw (setFromUnitVectors n forward) = 1"
proof -
  obtain a b c where n: "n = Vector3 a b c" by (cases n)
  from assms obtain L where Lpos: "0 < L" and L2: "L * L = 2 * (1 + c)"
    and sq: "a * a + b * b + c * c = 1"
    and q: "setFromUnitVectors n forward = Quaternion (b / L) (- a / L) 0 ((1 + c) / L)"
    unfolding n by (auto elim: solve_explicit)
  have "b / L * (b / L) + - a / L * (- a / L) + (1 + c) / L * ((1 + c) / L)
      = (b * b + a * a + (1 + c) * (1 + c)) / (L * L)"
    using Lpos by (simp add: field_simps)
  also have "b * b + a * a + (1 + c) * (1 + c) = L * L"
    unfolding L2 using sq by algebra
  finally show ?thesis
    using Lpos by (simp add: q)
qed

lemma solve_opposite:
  "applyQuaternion (Vector3 0 0 (- 1)) (setFromUnitVectors (Vector3 0 0 (- 1)) forward) = forward"
  using EPSILON_pos
  by (simp add: setFromUnitVectors_def forward_def dot_def normalizeQ_def qlength_def
      applyQuaternion_def Let_def)

lemma stand_in_normal: "faceNormal (\<lambda>i. Vector3 0 (3 / 5) (4 / 5)) i = Vector3 0 (3 / 5) (4 / 5)"
  by (simp add: faceNormal_def normalizeV_def lengthV_def lengthSq_def divideScalar_def
      multiplyScalar_def addVectors_def origin_def Let_def)

lemma rotate_back:
  assumes "qx q * qx q + qy q * qy q + qz q * qz q + qw q * qw q = 1"
  shows "applyQuaternion (applyQuaternion v q) (Quaternion (- qx q) (- qy q) (- qz q) (qw q)) = v"
proof -
  obtain a b c d where q: "q = Quaternion a b c d" by (cases q)
  obtain x y z where v: "v = Vector3 x y z" by (cases v)
  from assms have u: "a * a + b * b + c * c + d * d = 1" by (simp add: q)
  show ?thesis
    unfolding q v applyQuaternion_def Let_def
    apply simp
    apply (intro conjI)
    using u apply algebra
    using u apply algebra
    using u apply algebra
    done
qed

lemma D6_faces:
  "applyQuaternion (BoxGeometry_normal 1) (getFaceQuaternion 1) = forward"
  "applyQuaternion (BoxGeometry_normal 2) (getFaceQuaternion 2) = forward"
  "applyQuaternion (BoxGeometry_normal 3) (getFaceQuaternion 3) = forward"
  "applyQuaternion (BoxGeometry_normal 4) (getFaceQuaternion 4) = forward"
  "applyQuaternion (BoxGeometry_normal 5) (getFaceQuaternion 5) = forward"
  "applyQuaternion (BoxGeometry_normal 6) (getFaceQuaternion 6) = forward"
  by (simp_all add: BoxGeometry_normal_def getFaceQuaternion_def orientations_def setFromEuler_def
      applyQuaternion_def forward_def Let_def cos_45 sin_45)

text \<open>
  Every die but D12 computes the target of a roll from its own normal of the drawn face,
  so that target turns the drawn face towards the viewer.
\<close>

lemma rolled_face_faces_forward:
  assumes "d \<noteq> D12" "int i < sides d" "lengthV (ownNormal lib d i) = 1"
    and "EPSILON \<le> vz (ownNormal lib d i) + 1 \<or> ownNormal lib d i = Vector3 0 0 (- 1)"
  shows "applyQuaternion (ownNormal lib d i) (rolledQuaternion lib d (int i)) = forward"
proof (cases "d = D6")
  case True
  from assms(2) True have "i < 6" by (simp add: sides_def)
  then have "i = 0 \<or> i = 1 \<or> i = 2 \<or> i = 3 \<or> i = 4 \<or> i = 5" by arith
  with True show ?thesis
    using D6_faces by (auto simp add: ownNormal_def rolledQuaternion_def)
next
  case False
  with assms(1) have q: "rolledQuaternion lib d (int i) =
      setFromUnitVectors (ownNormal lib d i) forward"
    by (cases d) (simp_all add: ownNormal_def rolledQuaternion_def)
  from assms(4) show ?thesis
  proof
    assume "EPSILON \<le> vz (ownNormal lib d i) + 1"
    with assms(3) show ?thesis
      unfolding q by (rule solve_forward)
  next
    assume "ownNormal lib d i = Vector3 0 0 (- 1)"
    then show ?thesis
      unfolding q by (simp only: solve_opposite)
  qed
qed

text \<open>For the ten-sided die this needs no assumption on the geometry.\<close>

lemma D10_rolled_face_faces_forward:
  assumes "i < 10"
  shows "applyQuaternion (ownNormal lib D10 i) (rolledQuaternion lib D10 (int i)) = forward"
proof -
  have d: "D10 \<noteq> D12" "int i < sides D10"
    using assms by (simp_all add: sides_def)
  have n: "ownNormal lib D10 i = normal (faceData_D10 position_D10 ! i)"
    by (simp add: ownNormal_def)
  from d show ?thesis
    by (rule rolled_face_faces_forward)
      (simp_all only: n D10_normals [OF assms] simp_thms)
qed

text \<open>
  Where a triangle's three vertex normals are one unit vector, the components' mean of
  them is that vector; and the face tables hold the edge normals of their first triangles.
\<close>

lemma faceNormal_flat:
  assumes "flatAt normals i" "lengthV (normals (3 * i)) = 1"
  shows "faceNormal normals i = normals (3 * i)"
proof -
  obtain a b c where n: "normals (3 * i) = Vector3 a b c" by (cases "normals (3 * i)")
  have i3: "i * 3 = 3 * i" by simp
  from assms(1) have same: "normals (3 * i + 1) = Vector3 a b c" "normals (3 * i + 2) = Vector3 a b c"
    by (simp_all add: flatAt_def n)
  have mean: "divideScalar (addVectors (addVectors (addVectors origin (Vector3 a b c))
      (Vector3 a b c)) (Vector3 a b c)) 3 = Vector3 a b c"
    by (simp add: divideScalar_def multiplyScalar_def addVectors_def origin_def)
  from assms(2) have "normalizeV (Vector3 a b c) = Vector3 a b c"
    by (simp add: n normalizeV_def divideScalar_def multiplyScalar_def)
  then show ?thesis
    unfolding faceNormal_def Let_def i3 n same mean .
qed

lemma table_normals:
  "f < 10 \<Longrightarrow> normal (faceData_D10 attr ! f) = edgeNormal (triangle attr (2 * f))"
  "g < 12 \<Longrightarrow> normal (faceData_D12 attr ! g) = edgeNormal (triangle attr (3 * g))"
  by (simp_all add: faceData_D10_def faceData_D12_def faceEntry_D10_def faceEntry_D12_def Let_def
      edgeNormal_def triangle_def mult.commute)

lemma own_is_geometry:
  assumes "flatNormals lib d (referenceFace d)"
    "lengthV (geometryNormal lib d (referenceFace d)) = 1"
  shows "ownNormal lib d (referenceFace d) = geometryNormal lib d (referenceFace d)"
proof (cases d)
  case D4
  with assms show ?thesis
    by (simp add: ownNormal_def geometryNormal_def flatNormals_def faceNormal_flat)
next
  case D6
  then show ?thesis by (simp add: ownNormal_def geometryNormal_def)
next
  case D8
  with assms show ?thesis
    by (simp add: ownNormal_def geometryNormal_def flatNormals_def faceNormal_flat)
next
  case D10
  then show ?thesis
    by (simp add: ownNormal_def geometryNormal_def referenceFace_def table_normals)
next
  case D12
  then show ?thesis
    by (simp add: ownNormal_def geometryNormal_def referenceFace_def table_normals)
next
  case D20
  with assms show ?thesis
    by (simp add: ownNormal_def geometryNormal_def flatNormals_def faceNormal_flat)
qed

text \<open>The initial quaternion of each die turns the normal the component computes forward.\<close>

lemma initial_orientation_own:
  assumes "lengthV (ownNormal lib d (referenceFace d)) = 1"
    and "EPSILON \<le> vz (ownNormal lib d (referenceFace d)) + 1
         \<or> ownNormal lib d (referenceFace d) = Vector3 0 0 (- 1)"
  shows "\<not> rolling (ui (mount lib d cb))
    \<and> quaternion (mesh (mount lib d cb)) = initialQuaternion lib d
    \<and> applyQuaternion (ownNormal lib d (referenceFace d)) (quaternion (mesh (mount lib d cb)))
        = forward"
proof -
  have m: "\<not> rolling (ui (mount lib d cb))"
    "quaternion (mesh (mount lib d cb)) = initialQuaternion lib d"
    by (simp_all add: mount_def resetEffect_def)
  have "applyQuaternion (ownNormal lib d (referenceFace d)) (initialQuaternion lib d) = forward"
  proof (cases "d = D6")
    case True
    then show ?thesis
      using D6_faces(6) by (simp add: ownNormal_def referenceFace_def initialQuaternion_def)
  next
    case False
    then have q: "initialQuaternion lib d =
        setFromUnitVectors (ownNormal lib d (referenceFace d)) forward"
      by (cases d) (simp_all add: ownNormal_def referenceFace_def initialQuaternion_def)
    from assms(2) show ?thesis
    proof
      assume "EPSILON \<le> vz (ownNormal lib d (referenceFace d)) + 1"
      with assms(1) show ?thesis
        unfolding q by (rule solve_forward)
    next
      assume "ownNormal lib d (referenceFace d) = Vector3 0 0 (- 1)"
      then show ?thesis
        unfolding q by (simp only: solve_opposite)
    qed
  qed
  with m show ?thesis by simp
qed

section \<open>Claims about orientation\<close>

text \<open>
  C2. The claim: for every die the target orientation of a roll is the rotation that takes
  the drawn face's normal, from the die's own face table, onto \<open>(0, 0, 1)\<close>. The target
  commanded is \<open>rolledQuaternion\<close> at the drawn index (\<open>commanded_target\<close>). D12's
  \<^verbatim>\<open>rollDice\<close> reads the normals of an icosahedron instead: its target is the one D20
  computes for the same index, it does not depend on the dodecahedron at all, and
  whenever the dodecahedron's normal of the drawn face is another vector than the
  icosahedron's normal of the triangle with that index, the target does not turn the
  drawn face forward. (The other five dice obey the claim: \<open>rolled_face_faces_forward\<close>,
  and \<open>D10_rolled_face_faces_forward\<close> for the ten-sided die as it is built.)
\<close>

theorem D12_target_from_icosahedron:
  assumes "lengthV (faceNormal (IcosahedronGeometry_normal lib) i) = 1"
    and "EPSILON \<le> vz (faceNormal (IcosahedronGeometry_normal lib) i) + 1"
    and "ownNormal lib D12 i \<noteq> faceNormal (IcosahedronGeometry_normal lib) i"
    and "int i < sides D12"
  shows "rolledQuaternion lib D12 (int i) = rolledQuaternion lib D20 (int i)
    \<and> rolledQuaternion (lib \<lparr> DodecahedronGeometry_position := p \<rparr>) D12 (int i) =
        rolledQuaternion lib D12 (int i)
    \<and> applyQuaternion (ownNormal lib D12 i) (rolledQuaternion lib D12 (int i)) \<noteq> forward"
proof -
  let ?m = "faceNormal (IcosahedronGeometry_normal lib) i"
  let ?q = "setFromUnitVectors ?m forward"
  let ?inv = "Quaternion (- qx ?q) (- qy ?q) (- qz ?q) (qw ?q)"
  have q: "rolledQuaternion lib D12 (int i) = ?q"
    by (simp add: rolledQuaternion_def)
  have m: "applyQuaternion ?m ?q = forward"
    using assms(1,2) by (rule solve_forward)
  have u: "qx ?q * qx ?q + qy ?q * qy ?q + qz ?q * qz ?q + qw ?q * qw ?q = 1"
    using assms(1,2) by (rule solve_unit)
  have "applyQuaternion (ownNormal lib D12 i) ?q \<noteq> forward"
  proof
    assume "applyQuaternion (ownNormal lib D12 i) ?q = forward"
    then have "applyQuaternion (applyQuaternion (ownNormal lib D12 i) ?q) ?inv =
        applyQuaternion (applyQuaternion ?m ?q) ?inv"
      by (simp only: m)
    then have "ownNormal lib D12 i = ?m"
      by (simp only: rotate_back [OF u])
    with assms(3) show False by simp
  qed
  then show ?thesis
    by (simp add: rolledQuaternion_def)
qed

theorem D12_target_from_icosahedron_witness:
  "lengthV (faceNormal (IcosahedronGeometry_normal stand_in) 0) = 1
   \<and> EPSILON \<le> vz (faceNormal (IcosahedronGeometry_normal stand_in) 0) + 1
   \<and> ownNormal stand_in D12 0 \<noteq> faceNormal (IcosahedronGeometry_normal stand_in) 0
   \<and> int 0 < sides D12
   \<and> applyQuaternion (ownNormal stand_in D12 0) (rolledQuaternion stand_in D12 (int 0)) \<noteq> forward"
proof -
  have m: "faceNormal (IcosahedronGeometry_normal stand_in) 0 = Vector3 0 (3 / 5) (4 / 5)"
    by (simp add: stand_in_def stand_in_normal)
  have n: "ownNormal stand_in D12 0 = Vector3 0 0 1"
    by (simp add: ownNormal_def stand_in_def faceData_D12_def faceEntry_D12_def Let_def
        normalizeV_def lengthV_def lengthSq_def crossVectors_def subVectors_def divideScalar_def
        multiplyScalar_def)
  have h1: "lengthV (faceNormal (IcosahedronGeometry_normal stand_in) 0) = 1"
    unfolding m by (simp add: lengthV_def lengthSq_def)
  have h2: "EPSILON \<le> vz (faceNormal (IcosahedronGeometry_normal stand_in) 0) + 1"
    unfolding m by (simp add: EPSILON_def)
  have h3: "ownNormal stand_in D12 0 \<noteq> faceNormal (IcosahedronGeometry_normal stand_in) 0"
    unfolding m n by simp
  have h4: "int 0 < sides D12"
    by (simp add: sides_def)
  from D12_target_from_icosahedron [OF h1 h2 h3 h4] h1 h2 h3 h4 show ?thesis by blast
qed

text \<open>
  C8. Before any roll the mesh of each die carries the initial quaternion, and that
  quaternion turns the outward normal of the reference face (index 3 of D4, face 6 of D6,
  index 7 of D8, index 9 of D10, index 11 of D12, index 19 of D20), as the geometry itself
  has it, onto \<open>(0, 0, 1)\<close>. The geometry is taken to store one normal per triangle, and
  the normal to be a unit vector that does not point backwards by less than the library's
  margin (as the normals of D6 and, by \<open>D10_normals\<close>, of D10 are).
\<close>

theorem initial_orientation_shows_reference_face:
  assumes "flatNormals lib d (referenceFace d)"
    and "lengthV (geometryNormal lib d (referenceFace d)) = 1"
    and "EPSILON \<le> vz (geometryNormal lib d (referenceFace d)) + 1
         \<or> geometryNormal lib d (referenceFace d) = Vector3 0 0 (- 1)"
  shows "\<not> rolling (ui (mount lib d cb))
    \<and> quaternion (mesh (mount lib d cb)) = initialQuaternion lib d
    \<and> applyQuaternion (geometryNormal lib d (referenceFace d))
         (quaternion (mesh (mount lib d cb))) = forward"
proof -
  note same = own_is_geometry [OF assms(1,2)]
  from assms(2,3) show ?thesis
    unfolding same [symmetric] by (rule initial_orientation_own)
qed

theorem initial_orientation_shows_reference_face_witness:
  "flatNormals stand_in D10 (referenceFace D10)
   \<and> lengthV (geometryNormal stand_in D10 (referenceFace D10)) = 1
   \<and> EPSILON \<le> vz (geometryNormal stand_in D10 (referenceFace D10)) + 1
   \<and> applyQuaternion (geometryNormal stand_in D10 (referenceFace D10))
        (quaternion (mesh (mount stand_in D10 True))) = forward
   \<and> flatNormals
        (stand_in \<lparr> TetrahedronGeometry_normal :=
           (\<lambda>i. if i div 3 = 3 then Vector3 0 (3 / 5) (4 / 5) else Vector3 1 0 0) \<rparr>)
        D4 (referenceFace D4)
   \<and> geometryNormal
        (stand_in \<lparr> TetrahedronGeometry_normal :=
           (\<lambda>i. if i div 3 = 3 then Vector3 0 (3 / 5) (4 / 5) else Vector3 1 0 0) \<rparr>)
        D4 (referenceFace D4) = Vector3 0 (3 / 5) (4 / 5)
   \<and> applyQuaternion (Vector3 0 (3 / 5) (4 / 5))
        (quaternion (mesh (mount
           (stand_in \<lparr> TetrahedronGeometry_normal :=
              (\<lambda>i. if i div 3 = 3 then Vector3 0 (3 / 5) (4 / 5) else Vector3 1 0 0) \<rparr>)
           D4 True))) = forward"
proof -
  let ?lib = "stand_in \<lparr> TetrahedronGeometry_normal :=
           (\<lambda>i. if i div 3 = 3 then Vector3 0 (3 / 5) (4 / 5) else Vector3 1 0 0) \<rparr>"
  have n: "geometryNormal stand_in D10 (referenceFace D10) =
      normal (faceData_D10 position_D10 ! 9)"
    by (simp add: geometryNormal_def referenceFace_def table_normals)
  have nine: "(9::nat) < 10" by simp
  have f: "flatNormals stand_in D10 (referenceFace D10)"
    by (simp add: flatNormals_def)
  have u: "lengthV (geometryNormal stand_in D10 (referenceFace D10)) = 1"
    unfolding n by (rule D10_normals(1) [OF nine])
  have e: "EPSILON \<le> vz (geometryNormal stand_in D10 (referenceFace D10)) + 1"
    unfolding n by (rule D10_normals(2) [OF nine])
  note ten = initial_orientation_shows_reference_face [OF f u disjI1 [OF e], of True]
  have f4: "flatNormals ?lib D4 (referenceFace D4)"
    by (simp add: flatNormals_def flatAt_def referenceFace_def)
  have n4: "geometryNormal ?lib D4 (referenceFace D4) = Vector3 0 (3 / 5) (4 / 5)"
    by (simp add: geometryNormal_def referenceFace_def)
  have u4: "lengthV (geometryNormal ?lib D4 (referenceFace D4)) = 1"
    unfolding n4 by (simp add: lengthV_def lengthSq_def)
  have e4: "EPSILON \<le> vz (geometryNormal ?lib D4 (referenceFace D4)) + 1"
    unfolding n4 by (simp add: EPSILON_def)
  note four = initial_orientation_shows_reference_face [OF f4 u4 disjI1 [OF e4], of True]
  from four have four': "applyQuaternion (Vector3 0 (3 / 5) (4 / 5))
      (quaternion (mesh (mount ?lib D4 True))) = forward"
    unfolding n4 by blast
  from ten f u e f4 n4 four' show ?thesis by blast
qed

section \<open>Claims about the face tables\<close>

text \<open>
  C5, as the claim states it: the centre of a face in the table is the mean of all vertices
  of all triangles of the face. For face 0 of the ten-sided die, which the stride of the
  table makes of the stored triangles 0 and 1, the centre in the table is not the mean of
  the six stored vertices.
\<close>

theorem center_is_mean_of_all_vertices_counterexample:
  "center (faceData_D10 position_D10 ! 0) \<noteq>
     meanOfVertices (triangle position_D10 0 @ triangle position_D10 1)"
proof
  assume eq: "center (faceData_D10 position_D10 ! 0) =
     meanOfVertices (triangle position_D10 0 @ triangle position_D10 1)"
  have c: "vy (center (faceData_D10 position_D10 ! 0)) = (vy (stored 2) + vy (stored 3)) / 3"
    by (simp add: faceData_D10_nth faceEntry_D10_def Let_def position_D10_def
        createD10Geometry_stored stored_pole divideScalar_def multiplyScalar_def addVectors_def
        origin_def topApex_def)
  have m: "vy (meanOfVertices (triangle position_D10 0 @ triangle position_D10 1)) =
      (vy (stored 2) + 2 * vy (stored 3) + vy (stored 4)) / 6"
    by (simp add: meanOfVertices_def triangle_def position_D10_def createD10Geometry_stored
        stored_pole stored_pole_Suc divideScalar_def multiplyScalar_def addVectors_def origin_def
        topApex_def)
  from eq c m have "(vy (stored 2) + vy (stored 3)) / 3 =
      (vy (stored 2) + 2 * vy (stored 3) + vy (stored 4)) / 6"
    by simp
  then have "vy (stored 2) = vy (stored 4)" by (simp add: field_simps)
  with stored_2_4 show False by simp
qed

text \<open>
  C5, amended: for every face of D10 and of D12 the centre in the table is the mean of the
  three vertices of the face's first triangle (triangle \<open>2 f\<close> of D10, triangle \<open>3 g\<close> of
  D12), and the normal is the normalised cross product of the two edges of that triangle
  that leave its first vertex.
\<close>

theorem face_table_entries:
  "(f < 10 \<longrightarrow>
      center (faceData_D10 attr ! f) = meanOfVertices (triangle attr (2 * f))
      \<and> normal (faceData_D10 attr ! f) = edgeNormal (triangle attr (2 * f)))
   \<and> (g < 12 \<longrightarrow>
      center (faceData_D12 attr' ! g) = meanOfVertices (triangle attr' (3 * g))
      \<and> normal (faceData_D12 attr' ! g) = edgeNormal (triangle attr' (3 * g)))"
  by (simp add: faceData_D10_def faceData_D12_def faceEntry_D10_def faceEntry_D12_def Let_def
      meanOfVertices_def edgeNormal_def triangle_def mult.commute)

theorem face_table_entries_witness:
  "(0::nat) < 10 \<and> (0::nat) < 12
   \<and> center (faceData_D10 position_D10 ! 0) = meanOfVertices (triangle position_D10 (2 * 0))
   \<and> normal (faceData_D10 position_D10 ! 0) = edgeNormal (triangle position_D10 (2 * 0))
   \<and> center (faceData_D12 (DodecahedronGeometry_position stand_in) ! 0) =
       meanOfVertices (triangle (DodecahedronGeometry_position stand_in) (3 * 0))
   \<and> normal (faceData_D12 (DodecahedronGeometry_position stand_in) ! 0) =
       edgeNormal (triangle (DodecahedronGeometry_position stand_in) (3 * 0))"
  using face_table_entries [of 0 position_D10 0 "DodecahedronGeometry_position stand_in"]
  by simp



text \<open>
  C7. For every face of the ten-sided die, \<open>topDir\<close> is the vector from the face's centre to
  that stored vertex of the face which is nearest to the pole nearer to the centre, the
  first such vertex in the order stored; and \<open>topDir\<close> lies in the plane of the face, so
  projecting it onto that plane leaves it as it is.
\<close>

theorem topDir_towards_nearest_vertex:
  assumes "f < 10"
  shows "let F = faceData_D10 position_D10 ! f;
             nearer = (if distanceTo (center F) topApex \<le> distanceTo (center F) bottomApex
                       then topApex else bottomApex);
             vs = triangle position_D10 (2 * f) @ triangle position_D10 (2 * f + 1)
         in \<exists>k<6. topDir F = subVectors (vs ! k) (center F)
              \<and> (\<forall>j<6. distanceTo nearer (vs ! k) \<le> distanceTo nearer (vs ! j))
              \<and> (\<forall>j<k. distanceTo nearer (vs ! k) < distanceTo nearer (vs ! j))
              \<and> dot (topDir F) (normal F) = 0"
proof -
  let ?F = "faceEntry_D10 position_D10 f"
  define v0 where "v0 = position_D10 (f * 2 * 3)"
  define v1 where "v1 = position_D10 (f * 2 * 3 + 1)"
  note F = faces_D10 [OF assms, folded v0_def v1_def]
  from F obtain p q where second: "triangle position_D10 (2 * f + 1) = [p, q, pole f]"
    by blast
  from F have first: "triangle position_D10 (2 * f) = [v0, v1, pole f]" by blast
  let ?vs = "[v0, v1, pole f] @ [p, q, pole f]"
  have nearer: "(if distanceTo (center ?F) topApex \<le> distanceTo (center ?F) bottomApex
      then topApex else bottomApex) = pole f"
    unfolding nearer_pole by (simp add: faceEntry_D10_real(1) [OF assms] pole_def)
  have t: "topDir ?F = subVectors (?vs ! 2) (center ?F)"
    by (simp add: faceEntry_D10_real(2) [OF assms])
  have least: "\<forall>j<6. distanceTo (pole f) (?vs ! 2) \<le> distanceTo (pole f) (?vs ! j)"
    by (simp add: distanceTo_self distanceTo_nonneg)
  have before: "\<forall>j<2. distanceTo (pole f) (?vs ! 2) < distanceTo (pole f) (?vs ! j)"
  proof (intro allI impI)
    fix j :: nat
    assume "j < 2"
    then have "j = 0 \<or> j = 1" by auto
    with F show "distanceTo (pole f) (?vs ! 2) < distanceTo (pole f) (?vs ! j)"
      by (auto simp add: distanceTo_self)
  qed
  have n: "normal ?F = normalizeV (crossVectors (subVectors v1 v0) (subVectors (pole f) v0))"
    "center ?F = divideScalar (addVectors (addVectors (addVectors origin v0) v1) (pole f)) 3"
    using F unfolding faceEntry_D10_def Let_def v0_def v1_def by simp_all
  have plane: "dot (topDir ?F) (normal ?F) = 0"
    unfolding faceEntry_D10_real(2) [OF assms] unfolding n dot_normalizeV in_plane by simp
  from t least before plane have
    "\<exists>k<6. topDir ?F = subVectors (?vs ! k) (center ?F)
       \<and> (\<forall>j<6. distanceTo (pole f) (?vs ! k) \<le> distanceTo (pole f) (?vs ! j))
       \<and> (\<forall>j<k. distanceTo (pole f) (?vs ! k) < distanceTo (pole f) (?vs ! j))
       \<and> dot (topDir ?F) (normal ?F) = 0"
    by (intro exI [of _ 2]) simp
  then show ?thesis
    unfolding Let_def faceData_D10_nth [OF assms] nearer first second .
qed

theorem topDir_towards_nearest_vertex_witness:
  "(0::nat) < 10
   \<and> (let F = faceData_D10 position_D10 ! 0;
           nearer = (if distanceTo (center F) topApex \<le> distanceTo (center F) bottomApex
                     then topApex else bottomApex);
           vs = triangle position_D10 (2 * 0) @ triangle position_D10 (2 * 0 + 1)
       in \<exists>k<6. topDir F = subVectors (vs ! k) (center F)
            \<and> (\<forall>j<6. distanceTo nearer (vs ! k) \<le> distanceTo nearer (vs ! j))
            \<and> (\<forall>j<k. distanceTo nearer (vs ! k) < distanceTo nearer (vs ! j))
            \<and> dot (topDir F) (normal F) = 0)"
proof -
  have h: "(0::nat) < 10" by simp
  from h topDir_towards_nearest_vertex [OF h] show ?thesis by (rule conjI)
qed

end
